theory Spec2Isabelle
  imports Complex_Main
begin

section \<open>Loop-closure evaluation and experiment driver of the hand-eye calibration\<close>

text \<open>
  Shallow embedding of \<^verbatim>\<open>compute_set_of_hand_eye_calibrations.py\<close>: the function
  \<^verbatim>\<open>compute_loop_error\<close> and the driver under \<^verbatim>\<open>__main__\<close>.

  Python exceptions are values of the type \<open>error\<close>; a computation that may raise
  returns \<open>error + 'a\<close> with \<open>Inl\<close> for the exception. An assertion carries the
  source line of the \<^verbatim>\<open>assert\<close> statement that failed.
\<close>

datatype error =
    AssertionError nat
  | NameError string
  | IndexError
  | AttributeError
  | TypeError

text \<open>
  Subscription \<^verbatim>\<open>xs[i]\<close> of a Python list with an integer: an index below zero is
  counted from the end, and an index outside the list raises IndexError.
\<close>

definition py_index :: "'a list \<Rightarrow> int \<Rightarrow> error + 'a" where
  "py_index xs i =
     (if 0 \<le> i \<and> i < int (length xs) then Inr (xs ! nat i)
      else if i < 0 \<and> - int (length xs) \<le> i then Inr (xs ! nat (int (length xs) + i))
      else Inl IndexError)"

text \<open>
  \<^verbatim>\<open>list(itertools.combinations(xs, 2))\<close>: all pairs of elements at increasing
  positions, in lexicographic order of the positions.
\<close>

fun combinations2 :: "'a list \<Rightarrow> ('a \<times> 'a) list" where
  "combinations2 [] = []"
| "combinations2 (x # xs) = map (Pair x) xs @ combinations2 xs"

subsection \<open>Dual quaternions as the driver sees them\<close>

text \<open>
  The driver builds quaternions and dual quaternions with the constructors
  \<^verbatim>\<open>Quaternion(x, y, z, w)\<close> and \<^verbatim>\<open>DualQuaternion(q_rot, q_dual)\<close>. The classes
  themselves live in the package \<^verbatim>\<open>hand_eye_calibration\<close>; the operations the driver
  calls on them (\<^verbatim>\<open>*\<close>, \<^verbatim>\<open>inverse()\<close>, \<^verbatim>\<open>to_pose()\<close>) and the imported function
  \<^verbatim>\<open>compute_pose_error\<close> are parameters of the model, collected in \<open>dq_lib\<close>.
  Floating-point numbers are modelled as reals.
\<close>

datatype quaternion = Quaternion (qx: real) (qy: real) (qz: real) (qw: real)

datatype dual_quaternion = DualQuaternion (q_rot: quaternion) (q_dual: quaternion)

type_synonym pose = "real list"

record dq_lib =
  dq_mul :: "dual_quaternion \<Rightarrow> dual_quaternion \<Rightarrow> dual_quaternion"
  dq_inverse :: "dual_quaternion \<Rightarrow> dual_quaternion"
  to_pose :: "dual_quaternion \<Rightarrow> pose"
  compute_pose_error :: "pose \<Rightarrow> pose \<Rightarrow> real \<times> real"

subsection \<open>compute_loop_error\<close>

text \<open>
  An entry of \<^verbatim>\<open>results_dq_H_E\<close> is a dual quaternion or Python's \<^verbatim>\<open>None\<close>
  (the driver appends \<^verbatim>\<open>None\<close> for a pair without an estimate), hence the element
  type \<open>dual_quaternion option\<close>. The global \<^verbatim>\<open>num_poses_sets\<close> that the function
  reads is its first argument here.

  The \<^verbatim>\<open>while\<close> loop of lines 54 to 59, with the loop variables \<open>i\<close> and \<open>idx\<close> and
  the chain built so far.
\<close>

function chain_loop ::
  "int \<Rightarrow> dual_quaternion option list \<Rightarrow> int \<Rightarrow> int \<Rightarrow> dual_quaternion option list
     \<Rightarrow> error + dual_quaternion option list" where
  "chain_loop num_poses_sets results_dq_H_E i idx chain =
     (if i < num_poses_sets - 2 then
        (case py_index results_dq_H_E (idx + (num_poses_sets - i - 1)) of
           Inl e \<Rightarrow> Inl e
         | Inr x \<Rightarrow>
             chain_loop num_poses_sets results_dq_H_E (i + 1)
               (idx + (num_poses_sets - i - 1)) (chain @ [x]))
      else Inr chain)"
  by pat_completeness auto
termination
  by (relation "measure (\<lambda>(n, r, i, idx, chain). nat (n - 2 - i))") auto

declare chain_loop.simps [simp del]

text \<open>
  Lines 43 to 67: the chain starts with the identity, then \<^verbatim>\<open>results_dq_H_E[0]\<close>,
  then the entries picked by the loop, then the inverse of
  \<^verbatim>\<open>results_dq_H_E[num_poses_sets - 2]\<close>; calling \<^verbatim>\<open>inverse\<close> on \<^verbatim>\<open>None\<close> raises
  AttributeError. The assertion of line 66 checks the length.
\<close>

definition dq_identity :: dual_quaternion where
  "dq_identity = DualQuaternion (Quaternion 0 0 0 1) (Quaternion 0 0 0 0)"

definition calibration_transformation_chain ::
  "dq_lib \<Rightarrow> int \<Rightarrow> dual_quaternion option list \<Rightarrow> error + dual_quaternion option list" where
  "calibration_transformation_chain lib num_poses_sets results_dq_H_E =
     (case py_index results_dq_H_E 0 of
        Inl e \<Rightarrow> Inl e
      | Inr first \<Rightarrow>
     (case chain_loop num_poses_sets results_dq_H_E 0 0 ([Some dq_identity] @ [first]) of
        Inl e \<Rightarrow> Inl e
      | Inr chain \<Rightarrow>
     (case py_index results_dq_H_E (num_poses_sets - 2) of
        Inl e \<Rightarrow> Inl e
      | Inr None \<Rightarrow> Inl AttributeError
      | Inr (Some last_dq) \<Rightarrow>
          (let chain' = chain @ [Some (dq_inverse lib last_dq)]
           in if int (length chain') = num_poses_sets + 1 then Inr chain'
              else Inl (AssertionError 66)))))"

text \<open>
  Lines 70 to 74: the running product \<^verbatim>\<open>dq_tmp\<close> is multiplied from the right by each
  chain element in turn and its pose is appended to \<^verbatim>\<open>poses_to_plot\<close>. Multiplication
  is defined between dual quaternions (and scalars) only, so a \<^verbatim>\<open>None\<close> element is an
  error, recorded as TypeError.
\<close>

fun chain_poses ::
  "dq_lib \<Rightarrow> dual_quaternion option list \<Rightarrow> dual_quaternion \<Rightarrow> pose list \<Rightarrow> error + pose list" where
  "chain_poses lib [] dq_tmp poses_to_plot = Inr poses_to_plot"
| "chain_poses lib (None # cs) dq_tmp poses_to_plot = Inl TypeError"
| "chain_poses lib (Some c # cs) dq_tmp poses_to_plot =
     chain_poses lib cs (dq_mul lib dq_tmp c) (poses_to_plot @ [to_pose lib (dq_mul lib dq_tmp c)])"

text \<open>
  The whole function. Printing and plotting have no effect on the result; of the
  \<^verbatim>\<open>visualize\<close> branch only the assertion of line 84 remains.
\<close>

definition compute_loop_error ::
  "dq_lib \<Rightarrow> int \<Rightarrow> dual_quaternion option list \<Rightarrow> bool \<Rightarrow> error + real \<times> real" where
  "compute_loop_error lib num_poses_sets results_dq_H_E visualize =
     (case calibration_transformation_chain lib num_poses_sets results_dq_H_E of
        Inl e \<Rightarrow> Inl e
      | Inr chain \<Rightarrow>
     (case chain_poses lib chain dq_identity [] of
        Inl e \<Rightarrow> Inl e
      | Inr poses_to_plot \<Rightarrow>
     (case py_index poses_to_plot 0 of
        Inl e \<Rightarrow> Inl e
      | Inr pose_first \<Rightarrow>
     (case py_index poses_to_plot (- 1) of
        Inl e \<Rightarrow> Inl e
      | Inr pose_last \<Rightarrow>
          if visualize \<and> length poses_to_plot \<noteq> length chain then Inl (AssertionError 84)
          else Inr (compute_pose_error lib pose_first pose_last)))))"

text \<open>
  The indices that the loop reads, in the order it reads them, for loop variables
  starting at \<open>i\<close> and \<open>idx\<close>.
\<close>

function stride_indices :: "int \<Rightarrow> int \<Rightarrow> int \<Rightarrow> int list" where
  "stride_indices num_poses_sets i idx =
     (if i < num_poses_sets - 2 then
        (idx + (num_poses_sets - i - 1))
          # stride_indices num_poses_sets (i + 1) (idx + (num_poses_sets - i - 1))
      else [])"
  by pat_completeness auto
termination
  by (relation "measure (\<lambda>(n, i, idx). nat (n - 2 - i))") auto

declare stride_indices.simps [simp del]

text \<open>
  Position in \<open>combinations2 [0..<n]\<close> at which the pairs with first component \<open>b\<close>
  start: block \<open>b\<close> holds the \<open>n - 1 - b\<close> pairs \<open>(b, b + 1), \<dots>, (b, n - 1)\<close>.
\<close>

fun block_start :: "nat \<Rightarrow> nat \<Rightarrow> nat" where
  "block_start n 0 = 0"
| "block_start n (Suc b) = block_start n b + (n - 1 - b)"


section \<open>The driver\<close>

text \<open>
  The command-line arguments after parsing. \<^verbatim>\<open>--aligned_poses_B_H_csv_files\<close> is required
  with \<^verbatim>\<open>nargs='+'\<close>, so the list is never \<^verbatim>\<open>None\<close> and the assertion of line 113
  cannot fail; \<^verbatim>\<open>--is_absolute_pose_sensor\<close> is \<^verbatim>\<open>None\<close> when not given.
\<close>

record args =
  aligned_poses_B_H_csv_files :: "string list"
  is_absolute_pose_sensor :: "int list option"
  result_directory :: string
  visualize :: bool
  plot_every_nth_pose :: int
  num_iterations :: int

text \<open>
  The configuration objects returned by \<^verbatim>\<open>get_all_configs\<close>, with the attributes that the
  driver reads or writes; the filtering configuration is only passed on and is
  represented by a label.
\<close>

record hand_eye_config =
  enable_exhaustive_search :: bool
  use_baseline_approach :: bool
  hc_visualize :: bool
  hc_plot_every_nth_pose :: int

record optimization_config =
  optimization_only :: bool
  enable_optimization :: bool

type_synonym algorithm_config = "string \<times> string \<times> hand_eye_config \<times> optimization_config"

text \<open>
  The tuple returned by the two solvers, in the order of the tuple assignment of lines
  242 and 247: \<^verbatim>\<open>(success, dq_H_E, rmse, num_inliers, num_poses_kept, runtime,
  singular_values, bad_singular_values)\<close>.
\<close>

type_synonym solver_result =
  "bool \<times> dual_quaternion option \<times> (real \<times> real) \<times> int \<times> int \<times> real \<times> real list \<times> bool"

text \<open>
  The script runs at module level, so the variables assigned in the loop body keep their
  values from one pose pair, iteration and configuration to the next. The ones that are
  read outside the branch that assigns them are \<^verbatim>\<open>dual_quat_B_H_vec\<close> (lines 215 and 223)
  and the eight variables of the solver tuple; \<open>None\<close> stands for a variable that has not
  been assigned yet, whose use raises NameError.
\<close>

record py_vars =
  var_dual_quat_B_H_vec :: "dual_quaternion list option"
  var_solver_tuple :: "solver_result option"

text \<open>
  The attributes of \<^verbatim>\<open>ResultEntry\<close> that the driver fills. The loop errors are \<open>None\<close>
  as long as the driver has not assigned them.
\<close>

record ResultEntry =
  dataset_names :: "(string \<times> string) list"
  success :: "bool list"
  num_initial_poses :: "int list"
  num_poses_kept :: "int list"
  runtimes :: "real list"
  singular_values :: "real list list"
  bad_singular_value :: "bool list"
  optimization_success :: "bool list"
  rmse :: "(real \<times> real) list"
  num_inliers :: "int list"
  loop_error_position :: "real option"
  loop_error_orientation :: "real option"

definition new_ResultEntry :: ResultEntry where
  "new_ResultEntry =
     \<lparr>dataset_names = [], success = [], num_initial_poses = [], num_poses_kept = [],
      runtimes = [], singular_values = [], bad_singular_value = [], optimization_success = [],
      rmse = [], num_inliers = [], loop_error_position = None, loop_error_orientation = None\<rparr>"

text \<open>
  The functions that the driver imports and calls, as parameters. A call is identified by
  \<open>(algorithm_name, iteration, pose_pair_num)\<close>, so that a function that reads files or
  draws random samples may answer differently from call to call.
  \<^item> \<open>time_alignment\<close> stands for lines 189 to 218: reading the two files, the time offset,
    the aligned poses and their conversion; it returns \<^verbatim>\<open>time_offset\<close>,
    \<^verbatim>\<open>dual_quat_B_H_vec\<close> and \<^verbatim>\<open>dual_quat_W_E_vec\<close>.
  \<^item> \<open>run\<close> is the call of the external optimizer: \<open>None\<close> when it returns, \<open>Some ex\<close>
    when it raises the exception \<open>ex\<close>.
  \<^item> \<open>optimized_calibration\<close> is \<^verbatim>\<open>ExtrinsicCalibration.fromJson\<close> of the optimizer's
    output file: \<^verbatim>\<open>pose_dq\<close> and \<^verbatim>\<open>time_offset\<close>.
  \<^item> \<open>check_length\<close> is the method of \<^verbatim>\<open>ResultEntry\<close>: \<open>False\<close> when it raises.
  Writing files, printing and plotting are left out, except for the two messages of the
  degraded paths (lines 305 and 362), which are collected in \<open>console\<close>.
\<close>

type_synonym call_id = "string \<times> nat \<times> nat"

record externals =
  get_all_configs :: "algorithm_config list"
  time_alignment :: "call_id \<Rightarrow> string \<Rightarrow> string \<Rightarrow> real \<times> dual_quaternion list \<times> dual_quaternion list"
  align_paths_at_index :: "dual_quaternion list \<Rightarrow> dual_quaternion list"
  compute_hand_eye_calibration_BASELINE ::
    "call_id \<Rightarrow> dual_quaternion list \<Rightarrow> dual_quaternion list \<Rightarrow> hand_eye_config \<Rightarrow> solver_result"
  compute_hand_eye_calibration_RANSAC ::
    "call_id \<Rightarrow> dual_quaternion list \<Rightarrow> dual_quaternion list \<Rightarrow> hand_eye_config \<Rightarrow> solver_result"
  run :: "call_id \<Rightarrow> string \<Rightarrow> string \<Rightarrow> bool \<Rightarrow> bool \<Rightarrow> string option"
  optimized_calibration :: "call_id \<Rightarrow> dual_quaternion \<times> real"
  evaluate_calibration :: "string \<Rightarrow> string \<Rightarrow> dual_quaternion \<Rightarrow> real \<Rightarrow> (real \<times> real) \<times> int"
  check_length :: "ResultEntry \<Rightarrow> nat \<Rightarrow> bool"

text \<open>
  The state of the run: the variables of one iteration (\<^verbatim>\<open>result_entry\<close>,
  \<^verbatim>\<open>results_dq_H_E\<close>, \<^verbatim>\<open>results_poses_H_E\<close>, \<^verbatim>\<open>pose_pair_num\<close>), the variables that
  survive from pair to pair, the result entries written to the results file so far (one
  per iteration, lines 365 to 392) and the printed messages.
\<close>

record state =
  result_entry :: ResultEntry
  results_dq_H_E :: "dual_quaternion option list"
  results_poses_H_E :: "pose option list"
  pose_pair_num :: nat
  vars :: py_vars
  results_file :: "ResultEntry list"
  console :: "string list"

definition initial_state :: state where
  "initial_state =
     \<lparr>result_entry = new_ResultEntry, results_dq_H_E = [], results_poses_H_E = [],
      pose_pair_num = 0,
      vars = \<lparr>var_dual_quat_B_H_vec = None, var_solver_tuple = None\<rparr>,
      results_file = [], console = []\<rparr>"

text \<open>A \<^verbatim>\<open>for\<close> loop over a list whose body may raise.\<close>

fun for_each :: "('a \<Rightarrow> 's \<Rightarrow> error + 's) \<Rightarrow> 'a list \<Rightarrow> 's \<Rightarrow> error + 's" where
  "for_each body [] s = Inr s"
| "for_each body (x # xs) s =
     (case body x s of Inl e \<Rightarrow> Inl e | Inr s' \<Rightarrow> for_each body xs s')"

text \<open>
  Lines 202 to 267, the initial calibration of one pose pair. Outside the
  optimization-only mode the two vectors are computed, their lengths compared (assertion
  of line 220) and the solver chosen by \<^verbatim>\<open>use_baseline_approach\<close> is called; its tuple
  is assigned to the eight variables. In the optimization-only mode none of these
  variables is assigned.
\<close>

definition initial_calibration ::
  "externals \<Rightarrow> hand_eye_config \<Rightarrow> optimization_config \<Rightarrow> call_id \<Rightarrow> string \<times> string
     \<Rightarrow> py_vars \<Rightarrow> error + py_vars" where
  "initial_calibration ext hc oc cid files vs =
     (if \<not> optimization_only oc then
        (case time_alignment ext cid (fst files) (snd files) of
           (time_offset, dual_quat_B_H_vec, dual_quat_W_E_vec) \<Rightarrow>
             if length dual_quat_B_H_vec \<noteq> length dual_quat_W_E_vec
             then Inl (AssertionError 220)
             else
               (let dual_quat_B_H_vec' = align_paths_at_index ext dual_quat_B_H_vec;
                    dual_quat_W_E_vec' = align_paths_at_index ext dual_quat_W_E_vec;
                    solved =
                      (if use_baseline_approach hc
                       then compute_hand_eye_calibration_BASELINE ext cid
                              dual_quat_B_H_vec' dual_quat_W_E_vec' hc
                       else compute_hand_eye_calibration_RANSAC ext cid
                              dual_quat_B_H_vec' dual_quat_W_E_vec' hc)
                in Inr \<lparr>var_dual_quat_B_H_vec = Some dual_quat_B_H_vec',
                         var_solver_tuple = Some solved\<rparr>))
      else Inr vs)"

text \<open>
  Lines 270 to 276: the result entry is filled from the variables, whichever statement
  assigned them last.
\<close>

definition fill_result_entry ::
  "string \<times> string \<Rightarrow> py_vars \<Rightarrow> ResultEntry \<Rightarrow> error + ResultEntry" where
  "fill_result_entry files vs re =
     (let re1 = re\<lparr>dataset_names := dataset_names re @ [files]\<rparr>
      in case var_solver_tuple vs of
           None \<Rightarrow> Inl (NameError ''success'')
         | Some (success_v, dq_H_E, rmse_v, num_inliers_v, num_poses_kept_v, runtime,
                 singular_values_v, bad_singular_values) \<Rightarrow>
        (case var_dual_quat_B_H_vec vs of
           None \<Rightarrow> Inl (NameError ''dual_quat_B_H_vec'')
         | Some dual_quat_B_H_vec \<Rightarrow>
             Inr (re1\<lparr>success := success re1 @ [success_v],
                      num_initial_poses := num_initial_poses re1 @ [int (length dual_quat_B_H_vec)],
                      num_poses_kept := num_poses_kept re1 @ [num_poses_kept_v],
                      runtimes := runtimes re1 @ [runtime],
                      singular_values := singular_values re1 @ [singular_values_v],
                      bad_singular_value := bad_singular_value re1 @ [bad_singular_values]\<rparr>)))"

text \<open>
  Lines 279 to 335, the branch with the optimizer enabled. An exception of \<^verbatim>\<open>run\<close> is
  caught: the message is printed and \<^verbatim>\<open>optimization_success\<close> becomes \<^verbatim>\<open>False\<close>, the
  other result variables keeping their initial values of lines 285 to 289.
\<close>

definition store_optimized ::
  "dq_lib \<Rightarrow> externals \<Rightarrow> call_id \<Rightarrow> string \<times> string \<Rightarrow> bool \<times> bool \<Rightarrow> state \<Rightarrow> state" where
  "store_optimized lib ext cid files flags s =
     (case (case run ext cid (fst files) (snd files) (fst flags) (snd flags) of
              Some ex \<Rightarrow> (None, False, (- 1, - 1), 0, [''Optimization failed: '' @ ex])
            | None \<Rightarrow>
                (case optimized_calibration ext cid of
                   (pose_dq, time_offset_optimized) \<Rightarrow>
                (case evaluate_calibration ext (fst files) (snd files) pose_dq time_offset_optimized of
                   (rmse_optimized, num_inliers_optimized) \<Rightarrow>
                     (Some pose_dq, True, rmse_optimized, num_inliers_optimized, [])))) of
        (dq_H_E_optimized, optimization_success_v, rmse_optimized, num_inliers_optimized, printed) \<Rightarrow>
          s\<lparr>results_poses_H_E := results_poses_H_E s @ [map_option (to_pose lib) dq_H_E_optimized],
            results_dq_H_E := results_dq_H_E s @ [dq_H_E_optimized],
            result_entry := (result_entry s)
              \<lparr>optimization_success := optimization_success (result_entry s) @ [optimization_success_v],
               rmse := rmse (result_entry s) @ [rmse_optimized],
               num_inliers := num_inliers (result_entry s) @ [num_inliers_optimized]\<rparr>,
            console := console s @ printed\<rparr>)"

text \<open>
  Lines 337 to 347, the branch without the optimizer: the estimate of the initial
  algorithm is stored and \<^verbatim>\<open>optimization_success\<close> is \<^verbatim>\<open>True\<close> whatever the solver
  reported.
\<close>

definition store_initial :: "dq_lib \<Rightarrow> state \<Rightarrow> error + state" where
  "store_initial lib s =
     (case var_solver_tuple (vars s) of
        None \<Rightarrow> Inl (NameError ''dq_H_E'')
      | Some (success_v, dq_H_E, rmse_v, num_inliers_v, rest) \<Rightarrow>
          Inr (s\<lparr>results_poses_H_E := results_poses_H_E s @ [map_option (to_pose lib) dq_H_E],
                  results_dq_H_E := results_dq_H_E s @ [dq_H_E],
                  result_entry := (result_entry s)
                    \<lparr>rmse := rmse (result_entry s) @ [rmse_v],
                     num_inliers := num_inliers (result_entry s) @ [num_inliers_v],
                     optimization_success := optimization_success (result_entry s) @ [True]\<rparr>\<rparr>))"

text \<open>Lines 178 to 349: the body of the loop over the pose pairs.\<close>

definition process_pair ::
  "dq_lib \<Rightarrow> externals \<Rightarrow> string \<Rightarrow> hand_eye_config \<Rightarrow> optimization_config \<Rightarrow> nat
     \<Rightarrow> (string \<times> string) \<times> (bool \<times> bool) \<Rightarrow> state \<Rightarrow> error + state" where
  "process_pair lib ext algorithm_name hc oc iteration pair s =
     (let cid = (algorithm_name, iteration, pose_pair_num s)
      in case initial_calibration ext hc oc cid (fst pair) (vars s) of
           Inl e \<Rightarrow> Inl e
         | Inr vs \<Rightarrow>
        (case fill_result_entry (fst pair) vs (result_entry s) of
           Inl e \<Rightarrow> Inl e
         | Inr re \<Rightarrow>
        (case (if enable_optimization oc
               then Inr (store_optimized lib ext cid (fst pair) (snd pair)
                           (s\<lparr>vars := vs, result_entry := re\<rparr>))
               else store_initial lib (s\<lparr>vars := vs, result_entry := re\<rparr>)) of
           Inl e \<Rightarrow> Inl e
         | Inr s' \<Rightarrow> Inr (s'\<lparr>pose_pair_num := pose_pair_num s' + 1\<rparr>))))"

text \<open>
  \<^verbatim>\<open>sum\<close> of a list of booleans counts the entries that are \<^verbatim>\<open>True\<close>.
\<close>

definition py_sum_bools :: "bool list \<Rightarrow> nat" where
  "py_sum_bools bs = length (filter (\<lambda>b. b) bs)"

text \<open>
  Lines 351 to 362: the checks after the loop over the pairs, and the loop error, which
  is computed when every entry of \<^verbatim>\<open>optimization_success\<close> is \<^verbatim>\<open>True\<close> and replaced
  by a printed message otherwise.
\<close>

definition verify_and_close_loop ::
  "dq_lib \<Rightarrow> externals \<Rightarrow> int \<Rightarrow> nat \<Rightarrow> state \<Rightarrow> error + state" where
  "verify_and_close_loop lib ext num_poses_sets num_pose_pairs s =
     (if length (results_dq_H_E s) \<noteq> num_pose_pairs then Inl (AssertionError 352)
      else if length (results_poses_H_E s) \<noteq> num_pose_pairs then Inl (AssertionError 353)
      else if \<not> check_length ext (result_entry s) num_pose_pairs then Inl (AssertionError 354)
      else if py_sum_bools (optimization_success (result_entry s)) = num_pose_pairs then
        (case compute_loop_error lib num_poses_sets (results_dq_H_E s) True of
           Inl e \<Rightarrow> Inl e
         | Inr (position, orientation) \<Rightarrow>
             Inr (s\<lparr>result_entry := (result_entry s)
                       \<lparr>loop_error_position := Some position,
                        loop_error_orientation := Some orientation\<rparr>\<rparr>))
      else
        Inr (s\<lparr>console := console s @
          [''Error: No loop error computed because not all pose pairs were successfully calibrated!'']\<rparr>))"

text \<open>Lines 169 to 392: one iteration of one algorithm configuration.\<close>

definition run_iteration ::
  "dq_lib \<Rightarrow> externals \<Rightarrow> int \<Rightarrow> ((string \<times> string) \<times> (bool \<times> bool)) list
     \<Rightarrow> string \<Rightarrow> hand_eye_config \<Rightarrow> optimization_config \<Rightarrow> nat \<Rightarrow> state \<Rightarrow> error + state" where
  "run_iteration lib ext num_poses_sets pairs algorithm_name hc oc iteration s =
     (case for_each (process_pair lib ext algorithm_name hc oc iteration) pairs
             (s\<lparr>result_entry := new_ResultEntry, results_dq_H_E := [],
                results_poses_H_E := [], pose_pair_num := 0\<rparr>) of
        Inl e \<Rightarrow> Inl e
      | Inr s1 \<Rightarrow>
     (case verify_and_close_loop lib ext num_poses_sets (length pairs) s1 of
        Inl e \<Rightarrow> Inl e
      | Inr s2 \<Rightarrow> Inr (s2\<lparr>results_file := results_file s2 @ [result_entry s2]\<rparr>)))"

text \<open>
  Lines 156 to 167: the number of iterations of a configuration, and the loop over
  \<^verbatim>\<open>range(0, num_iterations)\<close>, which is empty for a number below one.
\<close>

definition iterations_of :: "hand_eye_config \<Rightarrow> args \<Rightarrow> int" where
  "iterations_of hc a =
     (if enable_exhaustive_search hc \<or> use_baseline_approach hc then 1 else num_iterations a)"

definition run_config ::
  "dq_lib \<Rightarrow> externals \<Rightarrow> args \<Rightarrow> int \<Rightarrow> ((string \<times> string) \<times> (bool \<times> bool)) list
     \<Rightarrow> algorithm_config \<Rightarrow> state \<Rightarrow> error + state" where
  "run_config lib ext a num_poses_sets pairs config s =
     (case config of
        (algorithm_name, filtering_config, hand_eye_config, optimization_config) \<Rightarrow>
          (let hc = hand_eye_config\<lparr>hc_visualize := visualize a,
                                     hc_plot_every_nth_pose := plot_every_nth_pose a\<rparr>
           in for_each (run_iteration lib ext num_poses_sets pairs algorithm_name hc
                          optimization_config)
                [0..<nat (iterations_of hc a)] s))"

text \<open>
  Lines 113 to 156: the checks on the arguments, the pose pairs and the loop over the
  algorithm configurations.
\<close>

definition main :: "dq_lib \<Rightarrow> externals \<Rightarrow> args \<Rightarrow> error + state" where
  "main lib ext a =
     (let poses_B_H_csv_files = aligned_poses_B_H_csv_files a;
          num_poses_sets = length poses_B_H_csv_files
      in if \<not> 2 \<le> num_poses_sets then Inl (AssertionError 117)
         else
           (let is_absolute_pose_sensor_flags =
                  (case is_absolute_pose_sensor a of
                     None \<Rightarrow> replicate num_poses_sets False
                   | Some given \<Rightarrow> map (\<lambda>flag. flag \<noteq> 0) given)
            in if length is_absolute_pose_sensor_flags \<noteq> num_poses_sets
               then Inl (AssertionError 126)
               else
                 (let set_of_pose_pairs = combinations2 poses_B_H_csv_files;
                      set_of_is_absolute_sensor_flags =
                        combinations2 is_absolute_pose_sensor_flags
                  in if length set_of_pose_pairs \<noteq> length is_absolute_pose_sensor_flags
                     then Inl (AssertionError 132)
                     else for_each
                            (run_config lib ext a (int num_poses_sets)
                               (zip set_of_pose_pairs set_of_is_absolute_sensor_flags))
                            (get_all_configs ext) initial_state)))"

section \<open>Dual-quaternion algebra\<close>

text \<open>
  The classes \<^verbatim>\<open>Quaternion\<close> and \<^verbatim>\<open>DualQuaternion\<close> and the function
  \<^verbatim>\<open>compute_pose_error\<close> are imported by the driver from the package
  \<^verbatim>\<open>hand_eye_calibration\<close>, whose code is not part of the file modelled here. The
  definitions of this section follow the specification instead, over the reals.
\<close>

text \<open>
  Modelled from the spec: the operations of the missing class \<^verbatim>\<open>Quaternion\<close>, "4 real
  components (x,y,z,w); supports multiplication (Hamilton product, non-commutative),
  conjugate, normalization, inverse".
\<close>

fun q_times :: "quaternion \<Rightarrow> quaternion \<Rightarrow> quaternion" where
  "q_times (Quaternion ax ay az aw) (Quaternion bx by bz bw) =
     Quaternion (aw * bx + ax * bw + ay * bz - az * by)
                (aw * by - ax * bz + ay * bw + az * bx)
                (aw * bz + ax * by - ay * bx + az * bw)
                (aw * bw - ax * bx - ay * by - az * bz)"

fun q_plus :: "quaternion \<Rightarrow> quaternion \<Rightarrow> quaternion" where
  "q_plus (Quaternion ax ay az aw) (Quaternion bx by bz bw) =
     Quaternion (ax + bx) (ay + by) (az + bz) (aw + bw)"

fun q_scale :: "real \<Rightarrow> quaternion \<Rightarrow> quaternion" where
  "q_scale c (Quaternion ax ay az aw) = Quaternion (c * ax) (c * ay) (c * az) (c * aw)"

fun q_conjugate :: "quaternion \<Rightarrow> quaternion" where
  "q_conjugate (Quaternion ax ay az aw) = Quaternion (- ax) (- ay) (- az) aw"

fun q_dot :: "quaternion \<Rightarrow> quaternion \<Rightarrow> real" where
  "q_dot (Quaternion ax ay az aw) (Quaternion bx by bz bw) = ax * bx + ay * by + az * bz + aw * bw"

definition q_inverse :: "quaternion \<Rightarrow> quaternion" where
  "q_inverse q = q_scale (1 / q_dot q q) (q_conjugate q)"

text \<open>
  Modelled from the spec: the operations of the missing class \<^verbatim>\<open>DualQuaternion\<close>, an
  "ordered pair (real quaternion, dual quaternion), jointly representing a rigid
  rotation+translation" with "multiplication (composition of transforms)", "inverse" and
  "conversion to a 7-element pose vector (translation xyz + quaternion xyzw)". The product
  is that of the dual numbers over the quaternions; the translation of a transform is the
  vector part of twice the dual part times the conjugate of the rotation.
\<close>

fun dq_times :: "dual_quaternion \<Rightarrow> dual_quaternion \<Rightarrow> dual_quaternion" where
  "dq_times (DualQuaternion ar ad) (DualQuaternion br bd) =
     DualQuaternion (q_times ar br) (q_plus (q_times ar bd) (q_times ad br))"

fun dq_inv :: "dual_quaternion \<Rightarrow> dual_quaternion" where
  "dq_inv (DualQuaternion r d) =
     DualQuaternion (q_inverse r)
       (q_scale (- 1) (q_times (q_times (q_inverse r) d) (q_inverse r)))"

fun dq_to_pose :: "dual_quaternion \<Rightarrow> pose" where
  "dq_to_pose (DualQuaternion r d) =
     (let t = q_scale 2 (q_times d (q_conjugate r))
      in [qx t, qy t, qz t, qx r, qy r, qz r, qw r])"

text \<open>
  Modelled from the spec: the invariants of a dual quaternion that is a valid rigid
  transform, "unit norm for rotation-representing instances" and "the dual part must satisfy
  the orthogonality constraint relating it to the real part".
\<close>

definition is_rigid_transform :: "dual_quaternion \<Rightarrow> bool" where
  "is_rigid_transform t \<longleftrightarrow> q_dot (q_rot t) (q_rot t) = 1 \<and> q_dot (q_rot t) (q_dual t) = 0"

text \<open>
  Modelled from the spec: the missing function \<^verbatim>\<open>compute_pose_error\<close>, "the geometric and
  angular distance" between two poses, "position error in the pose's length unit,
  orientation error in degrees": the Euclidean distance of the positions and the angle of
  the rotation between the two orientations.
\<close>

definition pose_error :: "pose \<Rightarrow> pose \<Rightarrow> real \<times> real" where
  "pose_error a b =
     (sqrt ((a ! 0 - b ! 0)\<^sup>2 + (a ! 1 - b ! 1)\<^sup>2 + (a ! 2 - b ! 2)\<^sup>2),
      2 * arccos (min 1 \<bar>a ! 3 * b ! 3 + a ! 4 * b ! 4 + a ! 5 * b ! 5 + a ! 6 * b ! 6\<bar>)
        * 180 / pi)"

text \<open>
  The library with the dual-quaternion operations above; the conversion to a pose and the
  pose error stay parameters.
\<close>

definition real_dq_lib :: "(dual_quaternion \<Rightarrow> pose) \<Rightarrow> (pose \<Rightarrow> pose \<Rightarrow> real \<times> real) \<Rightarrow> dq_lib" where
  "real_dq_lib tp cpe =
     \<lparr>dq_mul = dq_times, dq_inverse = dq_inv, to_pose = tp, compute_pose_error = cpe\<rparr>"

section \<open>Sample inputs\<close>

text \<open>
  Concrete inputs on which the definitions above are evaluated: the library with the
  operations of the previous section, translations along the first axis as calibration
  results, and an environment for a run over three pose files whose pairwise results are
  consistent with each other. The solver fails on the second pair for the algorithm named
  \<open>''failing''\<close>, and the optimizer fails on the second pair for the algorithm named
  \<open>''crashing''\<close>.
\<close>

definition sample_lib :: dq_lib where
  "sample_lib = real_dq_lib dq_to_pose pose_error"

definition shift_x :: "real \<Rightarrow> dual_quaternion" where
  "shift_x a = DualQuaternion (Quaternion 0 0 0 1) (Quaternion (a / 2) 0 0 0)"

definition half_turn :: dual_quaternion where
  "half_turn = DualQuaternion (Quaternion 0 0 1 0) (Quaternion 1 0 0 0)"

definition sample_estimate :: "nat \<Rightarrow> dual_quaternion" where
  "sample_estimate pair_num = (if pair_num = 0 then shift_x 1 else if pair_num = 1 then shift_x 3 else shift_x 2)"

definition sample_solver ::
  "call_id \<Rightarrow> dual_quaternion list \<Rightarrow> dual_quaternion list \<Rightarrow> hand_eye_config \<Rightarrow> solver_result" where
  "sample_solver cid bs ws hc =
     (if fst cid = ''failing'' \<and> snd (snd cid) = 1
      then (False, None, (0, 0), 0, 0, 0, [], True)
      else (True, Some (sample_estimate (snd (snd cid))), (0, 0), 2, 2, 0, [0, 0], False))"

definition sample_externals :: externals where
  "sample_externals =
     \<lparr>get_all_configs = [],
      time_alignment = (\<lambda>cid f g. (0, [dq_identity, shift_x 1], [dq_identity, shift_x 1])),
      align_paths_at_index = (\<lambda>ds. ds),
      compute_hand_eye_calibration_BASELINE = sample_solver,
      compute_hand_eye_calibration_RANSAC = sample_solver,
      run = (\<lambda>cid f g a b.
               if fst cid = ''crashing'' \<and> snd (snd cid) = 1 then Some ''exit status 1'' else None),
      optimized_calibration = (\<lambda>cid. (sample_estimate (snd (snd cid)), 0)),
      evaluate_calibration = (\<lambda>f g d t. ((0, 0), 2)),
      check_length = (\<lambda>re n. length (dataset_names re) = n)\<rparr>"

definition sample_hand_eye_config :: hand_eye_config where
  "sample_hand_eye_config =
     \<lparr>enable_exhaustive_search = False, use_baseline_approach = False,
      hc_visualize = False, hc_plot_every_nth_pose = 10\<rparr>"

definition sample_args :: args where
  "sample_args =
     \<lparr>aligned_poses_B_H_csv_files = [''a.csv'', ''b.csv'', ''c.csv''],
      is_absolute_pose_sensor = None, result_directory = ''out'', visualize = False,
      plot_every_nth_pose = 10, num_iterations = 2\<rparr>"

definition sample_pairs :: "((string \<times> string) \<times> (bool \<times> bool)) list" where
  "sample_pairs =
     zip (combinations2 [''a.csv'', ''b.csv'', ''c.csv'']) (combinations2 [False, False, False])"

definition sample_config :: "string \<Rightarrow> bool \<Rightarrow> bool \<Rightarrow> algorithm_config" where
  "sample_config name only opt =
     (name, ''default'', sample_hand_eye_config,
      \<lparr>optimization_only = only, enable_optimization = opt\<rparr>)"

text \<open>
  The variables and the state of a run over the three sample files after its first pair,
  and the variables after the initial calibration of its second pair.
\<close>

definition sample_vars :: py_vars where
  "sample_vars =
     \<lparr>var_dual_quat_B_H_vec = Some [dq_identity, shift_x 1],
      var_solver_tuple = Some (True, Some (shift_x 3), (0, 0), 2, 2, 0, [0, 0], False)\<rparr>"

definition sample_entry :: ResultEntry where
  "sample_entry =
     \<lparr>dataset_names = [(''a.csv'', ''b.csv'')], success = [True], num_initial_poses = [2],
      num_poses_kept = [2], runtimes = [0], singular_values = [[0, 0]],
      bad_singular_value = [False], optimization_success = [True], rmse = [(0, 0)],
      num_inliers = [2], loop_error_position = None, loop_error_orientation = None\<rparr>"

definition sample_state :: state where
  "sample_state =
     \<lparr>result_entry = sample_entry, results_dq_H_E = [Some (shift_x 1)],
      results_poses_H_E = [Some (dq_to_pose (shift_x 1))], pose_pair_num = 1,
      vars = \<lparr>var_dual_quat_B_H_vec = Some [dq_identity, shift_x 1],
               var_solver_tuple = Some (True, Some (shift_x 1), (0, 0), 2, 2, 0, [0, 0], False)\<rparr>,
      results_file = [], console = []\<rparr>"

section \<open>Properties of the chain construction\<close>

lemma py_index_in_range: "i < length xs \<Longrightarrow> py_index xs (int i) = Inr (xs ! i)"
  by (simp add: py_index_def)

lemma length_combinations2: "length (combinations2 xs) = length xs * (length xs - 1) div 2"
proof (induction xs)
  case Nil
  then show ?case by simp
next
  case (Cons x xs)
  have "Suc (length xs) * length xs = 2 * length xs + length xs * (length xs - 1)"
    by (cases "length xs") (simp_all add: algebra_simps)
  then show ?case using Cons by simp
qed

lemma combinations2_upt: "a < n \<Longrightarrow> combinations2 [a..<n] = map (Pair a) [Suc a..<n] @ combinations2 [Suc a..<n]"
  by (simp add: upt_conv_Cons)

lemma drop_block_start: "b \<le> n \<Longrightarrow> drop (block_start n b) (combinations2 [0..<n]) = combinations2 [b..<n]"
proof (induction b)
  case 0
  then show ?case by simp
next
  case (Suc b)
  then have "b < n" by simp
  have "drop (block_start n (Suc b)) (combinations2 [0..<n])
        = drop (n - 1 - b) (drop (block_start n b) (combinations2 [0..<n]))"
    by (simp add: add.commute)
  also have "\<dots> = drop (n - 1 - b) (combinations2 [b..<n])"
    using Suc by simp
  also have "\<dots> = combinations2 [Suc b..<n]"
    using \<open>b < n\<close> by (simp add: combinations2_upt)
  finally show ?case .
qed

lemma block_start_nth:
  assumes "Suc b < n"
  shows "block_start n b < length (combinations2 [0..<n])"
    and "combinations2 [0..<n] ! block_start n b = (b, Suc b)"
proof -
  have d: "drop (block_start n b) (combinations2 [0..<n]) = combinations2 [b..<n]"
    using assms by (simp add: drop_block_start)
  have c: "combinations2 [b..<n] = (b, Suc b) # map (Pair b) [Suc (Suc b)..<n] @ combinations2 [Suc b..<n]"
    using assms by (simp add: combinations2_upt upt_conv_Cons)
  show lt: "block_start n b < length (combinations2 [0..<n])"
  proof (rule ccontr)
    assume "\<not> ?thesis"
    then have "drop (block_start n b) (combinations2 [0..<n]) = []" by simp
    with d c show False by simp
  qed
  have "combinations2 [0..<n] ! block_start n b = hd (drop (block_start n b) (combinations2 [0..<n]))"
    using lt by (simp add: hd_drop_conv_nth)
  then show "combinations2 [0..<n] ! block_start n b = (b, Suc b)"
    using d c by simp
qed

lemma block_start_bound: "Suc b < n \<Longrightarrow> block_start n b < n * (n - 1) div 2"
  using block_start_nth(1) [of b n] by (simp add: length_combinations2)

lemma stride_indices_block:
  "k + 2 \<le> n \<Longrightarrow> stride_indices (int n) (int k) (int (block_start n k))
     = map (\<lambda>b. int (block_start n b)) [Suc k..<n - 1]"
proof (induction "n - 2 - k" arbitrary: k)
  case 0
  then have "k = n - 2" by simp
  then show ?case using 0 by (simp add: stride_indices.simps [of "int n"])
next
  case (Suc m)
  then have lt: "k < n - 2" by simp
  have e: "int (block_start n k) + (int n - int k - 1) = int (block_start n (Suc k))"
    using lt by (simp add: of_nat_diff)
  have cond: "int k < int n - 2" using lt by linarith
  have s: "int k + 1 = int (Suc k)" by simp
  have "stride_indices (int n) (int k) (int (block_start n k)) =
     (int (block_start n k) + (int n - int k - 1))
       # stride_indices (int n) (int k + 1) (int (block_start n k) + (int n - int k - 1))"
    using cond by (subst stride_indices.simps) simp
  also have "\<dots> = int (block_start n (Suc k))
       # stride_indices (int n) (int (Suc k)) (int (block_start n (Suc k)))"
    unfolding e s ..
  also have "stride_indices (int n) (int (Suc k)) (int (block_start n (Suc k)))
      = map (\<lambda>b. int (block_start n b)) [Suc (Suc k)..<n - 1]"
    using Suc lt by (intro Suc(1)) simp_all
  finally show ?case using lt by (simp add: upt_conv_Cons del: block_start.simps)
qed

lemma chain_loop_indices:
  "0 \<le> idx \<Longrightarrow> chain_loop N r i idx chain =
     (if \<forall>j \<in> set (stride_indices N i idx). j < int (length r)
      then Inr (chain @ map (\<lambda>j. r ! nat j) (stride_indices N i idx))
      else Inl IndexError)"
proof (induction N r i idx chain rule: chain_loop.induct)
  case (1 N r i idx chain)
  show ?case
  proof (cases "i < N - 2")
    case False
    then show ?thesis
      by (simp add: chain_loop.simps [of N r i] stride_indices.simps [of N i])
  next
    case True
    define j where "j = idx + (N - i - 1)"
    have j0: "0 \<le> j" using True 1(2) by (simp add: j_def)
    have st: "stride_indices N i idx = j # stride_indices N (i + 1) j"
      using True by (subst stride_indices.simps) (simp add: j_def)
    have cl: "chain_loop N r i idx chain =
        (case py_index r j of Inl e \<Rightarrow> Inl e
         | Inr x \<Rightarrow> chain_loop N r (i + 1) j (chain @ [x]))"
      unfolding j_def using True by (subst chain_loop.simps) simp
    show ?thesis
    proof (cases "j < int (length r)")
      case False
      then have "py_index r j = Inl IndexError" using j0 by (simp add: py_index_def)
      then show ?thesis using False by (simp add: cl st)
    next
      case inr: True
      then have p: "py_index r j = Inr (r ! nat j)" using j0 by (simp add: py_index_def)
      have "chain_loop N r (i + 1) j (chain @ [r ! nat j]) =
         (if \<forall>j \<in> set (stride_indices N (i + 1) j). j < int (length r)
          then Inr ((chain @ [r ! nat j]) @ map (\<lambda>j. r ! nat j) (stride_indices N (i + 1) j))
          else Inl IndexError)"
        using 1(1) [OF True p [unfolded j_def]] j0 by (simp add: j_def)
      then show ?thesis using inr by (simp add: cl st p)
    qed
  qed
qed

lemma chain_loop_cong:
  "\<forall>j \<in> set (stride_indices N i idx). py_index r1 j = py_index r2 j \<Longrightarrow>
   chain_loop N r1 i idx chain = chain_loop N r2 i idx chain"
proof (induction N r1 i idx chain rule: chain_loop.induct)
  case (1 N r1 i idx chain)
  show ?case
  proof (cases "i < N - 2")
    case False
    then show ?thesis
      by (simp add: chain_loop.simps [of N _ i])
  next
    case True
    define j where "j = idx + (N - i - 1)"
    have st: "stride_indices N i idx = j # stride_indices N (i + 1) j"
      using True by (subst stride_indices.simps) (simp add: j_def)
    have eq: "py_index r1 j = py_index r2 j" using 1(2) by (simp add: st)
    have cl: "chain_loop N r i idx chain =
        (case py_index r j of Inl e \<Rightarrow> Inl e
         | Inr x \<Rightarrow> chain_loop N r (i + 1) j (chain @ [x]))" for r
      unfolding j_def using True by (subst chain_loop.simps) simp
    show ?thesis
    proof (cases "py_index r1 j")
      case (Inl e)
      then show ?thesis using eq by (simp add: cl)
    next
      case (Inr x)
      have "chain_loop N r1 (i + 1) j (chain @ [x]) = chain_loop N r2 (i + 1) j (chain @ [x])"
        using 1(1) [OF True Inr [unfolded j_def]] 1(2) by (simp add: st j_def)
      then show ?thesis using Inr eq by (simp add: cl)
    qed
  qed
qed


lemma combinations2_map: "combinations2 (map g xs) = map (map_prod g g) (combinations2 xs)"
  by (induction xs) simp_all

lemma combinations2_nth_conv:
  "combinations2 xs = map (\<lambda>(i, j). (xs ! i, xs ! j)) (combinations2 [0..<length xs])"
proof -
  have "combinations2 (map ((!) xs) [0..<length xs])
      = map (map_prod ((!) xs) ((!) xs)) (combinations2 [0..<length xs])"
    by (rule combinations2_map)
  moreover have "map_prod ((!) xs) ((!) xs) = (\<lambda>(i, j). (xs ! i, xs ! j))"
    by (auto simp: fun_eq_iff)
  ultimately show ?thesis by (simp add: map_nth)
qed

lemma first_block_nth:
  assumes "k + 1 < n"
  shows "k < length (combinations2 [0..<n])" and "combinations2 [0..<n] ! k = (0, Suc k)"
proof -
  have c: "combinations2 [0..<n] = map (Pair 0) [Suc 0..<n] @ combinations2 [Suc 0..<n]"
    using assms by (simp add: combinations2_upt)
  show "k < length (combinations2 [0..<n])" using assms by (simp add: c)
  show "combinations2 [0..<n] ! k = (0, Suc k)" using assms by (auto simp: c nth_append)
qed

lemma chain_general:
  assumes n: "2 \<le> n" and len: "length r = n choose 2"
  shows "calibration_transformation_chain lib (int n) r =
     (case r ! (n - 2) of
        None \<Rightarrow> Inl AttributeError
      | Some d \<Rightarrow> Inr ([Some dq_identity, r ! 0] @ map (\<lambda>b. r ! block_start n b) [1..<n - 1]
                         @ [Some (dq_inverse lib d)]))"
proof -
  have lr: "length r = length (combinations2 [0..<n])"
    by (simp add: len choose_two length_combinations2)
  have i0: "py_index r 0 = Inr (r ! 0)"
    using first_block_nth(1) [of 0 n] n lr by (simp add: py_index_def)
  have il: "py_index r (int n - 2) = Inr (r ! (n - 2))"
  proof -
    have "n - 2 < length r" using first_block_nth(1) [of "n - 2" n] n lr by simp
    moreover have "int n - 2 = int (n - 2)" using n by simp
    ultimately show ?thesis using py_index_in_range by metis
  qed
  have st: "stride_indices (int n) 0 0 = map (\<lambda>b. int (block_start n b)) [1..<n - 1]"
    using stride_indices_block [of 0 n] n by simp
  have inr: "\<forall>j \<in> set (stride_indices (int n) 0 0). j < int (length r)"
    using block_start_nth(1) [of _ n] lr by (auto simp: st)
  have cl: "chain_loop (int n) r 0 0 ([Some dq_identity] @ [r ! 0]) =
      Inr ([Some dq_identity, r ! 0] @ map (\<lambda>b. r ! block_start n b) [1..<n - 1])"
    using inr by (simp add: chain_loop_indices st comp_def)
  have l: "int (length ([Some dq_identity, r ! 0] @ map (\<lambda>b. r ! block_start n b) [1..<n - 1] @ [x]))
      = int n + 1" for x
    using n by simp
  show ?thesis
    unfolding calibration_transformation_chain_def i0 il cl sum.case
    using l by (simp split: option.split)
qed

lemma chain_poses_Some:
  "chain_poses lib (map Some cs) t ps =
     Inr (ps @ map (\<lambda>k. to_pose lib (foldl (dq_mul lib) t (take (Suc k) cs))) [0..<length cs])"
proof (induction cs arbitrary: t ps)
  case Nil
  then show ?case by simp
next
  case (Cons c cs)
  show ?case
    by (simp add: Cons.IH map_upt_Suc del: upt_Suc)
qed

lemma chain_of_results:
  assumes n: "2 \<le> n" and len: "length ds = n choose 2"
  shows "calibration_transformation_chain lib (int n) (map Some ds) =
     Inr (map Some (dq_identity # ds ! 0 # map (\<lambda>b. ds ! block_start n b) [1..<n - 1]
                      @ [dq_inverse lib (ds ! (n - 2))]))"
proof -
  have lr: "length ds = length (combinations2 [0..<n])"
    by (simp add: len choose_two length_combinations2)
  have a: "map Some ds ! k = Some (ds ! k)" if "k < length ds" for k
    using that by simp
  have l: "n - 2 < length ds" and z: "0 < length ds"
    using first_block_nth(1) [of "n - 2" n] first_block_nth(1) [of 0 n] n lr by simp_all
  have b: "map (\<lambda>b. map Some ds ! block_start n b) [1..<n - 1]
         = map Some (map (\<lambda>b. ds ! block_start n b) [1..<n - 1])"
    using block_start_nth(1) [of _ n] lr by auto
  show ?thesis
    using chain_general [OF n, of "map Some ds" lib] len b
    by (simp add: a [OF l] a [OF z] del: map_map)
qed

lemma loop_error_of_chain:
  assumes "calibration_transformation_chain lib N r = Inr (map Some chain)" and "chain \<noteq> []"
  shows "compute_loop_error lib N r v =
     Inr (compute_pose_error lib
            (to_pose lib (foldl (dq_mul lib) dq_identity (take 1 chain)))
            (to_pose lib (foldl (dq_mul lib) dq_identity chain)))"
proof -
  define poses where
    "poses = map (\<lambda>k. to_pose lib (foldl (dq_mul lib) dq_identity (take (Suc k) chain)))
               [0..<length chain]"
  have p: "chain_poses lib (map Some chain) dq_identity [] = Inr poses"
    by (simp add: chain_poses_Some poses_def)
  have len: "length poses = length chain" by (simp add: poses_def)
  have pos: "0 < length chain" using assms(2) by simp
  have f: "py_index poses 0 = Inr (to_pose lib (foldl (dq_mul lib) dq_identity (take 1 chain)))"
    using pos by (simp add: py_index_def len) (simp add: poses_def)
  obtain m where m: "length chain = Suc m" using assms(2) by (cases chain) auto
  have "py_index poses (- 1) = Inr (poses ! m)"
    by (simp add: py_index_def len m)
  moreover have "poses ! m = to_pose lib (foldl (dq_mul lib) dq_identity chain)"
    unfolding poses_def m by (simp add: nth_append m del: upt_Suc)
  ultimately have l: "py_index poses (- 1) = Inr (to_pose lib (foldl (dq_mul lib) dq_identity chain))"
    by simp
  show ?thesis
    unfolding compute_loop_error_def assms(1) p f l sum.case
    by (simp add: len)
qed

subsection \<open>The dual-quaternion laws used below\<close>

lemma q_times_scale_right: "q_times a (q_scale c b) = q_scale c (q_times a b)"
  by (cases a; cases b) (simp add: algebra_simps)

lemma q_times_assoc: "q_times (q_times a b) c = q_times a (q_times b c)"
  by (cases a; cases b; cases c) (simp add: algebra_simps)

lemma q_times_conjugate: "q_times q (q_conjugate q) = Quaternion 0 0 0 (q_dot q q)"
  by (cases q) (simp add: algebra_simps)

lemma q_times_one_left: "q_times (Quaternion 0 0 0 1) q = q"
  by (cases q) simp

lemma q_times_one_right: "q_times q (Quaternion 0 0 0 1) = q"
  by (cases q) simp

lemma q_times_zero_left: "q_times (Quaternion 0 0 0 0) q = Quaternion 0 0 0 0"
  by (cases q) simp

lemma q_times_zero_right: "q_times q (Quaternion 0 0 0 0) = Quaternion 0 0 0 0"
  by (cases q) simp

lemma q_plus_zero: "q_plus (Quaternion 0 0 0 0) q = q" "q_plus q (Quaternion 0 0 0 0) = q"
  by (cases q; simp)+

lemma q_plus_neg: "q_plus (q_scale (- 1) q) q = Quaternion 0 0 0 0"
  by (cases q) simp

lemma q_times_inverse:
  assumes "q_dot q q \<noteq> 0"
  shows "q_times q (q_inverse q) = Quaternion 0 0 0 1"
  using assms by (simp add: q_inverse_def q_times_scale_right q_times_conjugate)

lemma dq_times_identity_left: "dq_times dq_identity t = t"
  by (cases t) (simp add: dq_identity_def q_times_one_left q_times_zero_left q_plus_zero)

lemma dq_times_inv:
  assumes "q_dot (q_rot t) (q_rot t) \<noteq> 0"
  shows "dq_times t (dq_inv t) = dq_identity"
proof (cases t)
  case (DualQuaternion r d)
  then have r: "q_times r (q_inverse r) = Quaternion 0 0 0 1"
    using assms by (simp add: q_times_inverse)
  have "q_times r (q_times (q_times (q_inverse r) d) (q_inverse r))
      = q_times (q_times (q_times r (q_inverse r)) d) (q_inverse r)"
    by (simp add: q_times_assoc)
  also have "\<dots> = q_times d (q_inverse r)"
    by (simp add: r q_times_one_left)
  finally show ?thesis
    by (simp add: DualQuaternion dq_identity_def r q_times_scale_right q_plus_neg)
qed

section \<open>The claims about compute_loop_error\<close>

text \<open>
  Claim C1. For every number \<open>n \<ge> 2\<close> of pose files and every list of
  \<open>n choose 2\<close> dual quaternions as pairwise results, the construction of the chain
  returns normally (no index error, no call on \<^verbatim>\<open>None\<close>, and the assertion of line 66
  holds) with a chain of exactly \<open>n + 1\<close> elements.
\<close>

theorem chain_length:
  assumes "2 \<le> n" and "length ds = n choose 2"
  shows "\<exists>chain. calibration_transformation_chain lib (int n) (map Some ds) = Inr chain
            \<and> length chain = n + 1"
proof -
  have "n - 2 < length (combinations2 [0..<n])"
    using first_block_nth(1) [of "n - 2" n] assms(1) by simp
  then have "n - 2 < length ds"
    by (simp add: assms(2) choose_two length_combinations2)
  then have "map Some ds ! (n - 2) = Some (ds ! (n - 2))" by simp
  then show ?thesis
    using chain_general [of n "map Some ds" lib] assms by simp
qed

theorem chain_length_witness:
  "(2::nat) \<le> 3 \<and> length [shift_x 1, shift_x 3, shift_x 2] = 3 choose 2
   \<and> (\<exists>chain. calibration_transformation_chain sample_lib (int 3)
                  (map Some [shift_x 1, shift_x 3, shift_x 2]) = Inr chain
              \<and> length chain = 3 + 1)"
proof -
  have h1: "(2::nat) \<le> 3" by simp
  have h2: "length [shift_x 1, shift_x 3, shift_x 2] = 3 choose 2"
    by (simp add: choose_two)
  show ?thesis using chain_length [OF h1 h2, of sample_lib] h2 by simp
qed

text \<open>
  Claim C2. Let the pairwise results be listed in the order of
  \<^verbatim>\<open>itertools.combinations(files, 2)\<close>, \<open>result (f, g)\<close> being the result of the pair of
  files \<open>(f, g)\<close>. For at least two files the chain is the identity, then the results of the
  pairs of consecutive files \<open>(files ! i, files ! (i + 1))\<close> for \<open>i = 0, \<dots>, n - 2\<close> in this
  order, then the inverse of the result of the pair of the first and the last file.
\<close>

theorem chain_selects_consecutive_pairs:
  assumes "2 \<le> length files"
  shows "calibration_transformation_chain lib (int (length files))
           (map (\<lambda>p. Some (result p)) (combinations2 files))
       = Inr (Some dq_identity
              # map (\<lambda>i. Some (result (files ! i, files ! Suc i))) [0..<length files - 1]
              @ [Some (dq_inverse lib (result (files ! 0, files ! (length files - 1))))])"
proof -
  define n where "n = length files"
  define g where "g = (\<lambda>(i, j). Some (result (files ! i, files ! j)))"
  define r where "r = map (\<lambda>p. Some (result p)) (combinations2 files)"
  have n: "2 \<le> n" using assms by (simp add: n_def)
  have r: "r = map g (combinations2 [0..<n])"
    unfolding r_def n_def g_def
    by (subst combinations2_nth_conv) (simp add: comp_def case_prod_unfold)
  have len: "length r = n choose 2"
    by (simp add: r choose_two length_combinations2)
  have blk: "r ! block_start n b = Some (result (files ! b, files ! Suc b))" if "Suc b < n" for b
    using block_start_nth [OF that] by (simp add: r g_def)
  have fst: "r ! k = Some (result (files ! 0, files ! Suc k))" if "k + 1 < n" for k
    using first_block_nth [OF that] by (simp add: r g_def)
  have m: "map (\<lambda>b. r ! block_start n b) [1..<n - 1]
         = map (\<lambda>i. Some (result (files ! i, files ! Suc i))) [1..<n - 1]"
    using blk by auto
  have u: "[0..<n - 1] = 0 # [1..<n - 1]" using n by (simp add: upt_conv_Cons)
  have "calibration_transformation_chain lib (int n) r =
      Inr ([Some dq_identity, r ! 0] @ map (\<lambda>b. r ! block_start n b) [1..<n - 1]
             @ [Some (dq_inverse lib (result (files ! 0, files ! Suc (n - 2))))])"
    using chain_general [OF n len, of lib] fst [of "n - 2"] n by simp
  also have "r ! 0 = Some (result (files ! 0, files ! Suc 0))"
    using fst [of 0] n by simp
  finally show ?thesis
    using n unfolding m u r_def [symmetric] n_def [symmetric]
    by (simp add: Suc_diff_Suc numeral_2_eq_2)
qed

theorem chain_selects_consecutive_pairs_witness:
  "2 \<le> length [''a.csv'', ''b.csv'', ''c.csv'']
   \<and> calibration_transformation_chain sample_lib 3
         (map (\<lambda>p. Some (shift_x (real (length (fst p) + length (snd p)))))
            [(''a.csv'', ''b.csv''), (''a.csv'', ''c.csv''), (''b.csv'', ''c.csv'')])
       = Inr [Some dq_identity, Some (shift_x 10), Some (shift_x 10),
              Some (dq_inverse sample_lib (shift_x 10))]"
proof -
  have h: "2 \<le> length [''a.csv'', ''b.csv'', ''c.csv'']" by simp
  show ?thesis
    using chain_selects_consecutive_pairs [OF h, of sample_lib
        "\<lambda>p. shift_x (real (length (fst p) + length (snd p)))"]
    by (simp add: upt_conv_Cons)
qed

text \<open>
  Claim C5. Under the precondition of C1 the chain of \<open>n + 1\<close> dual quaternions is
  multiplied from the left to the right, starting from the identity: the \<open>k\<close>-th of the
  \<open>n + 1\<close> poses is the pose of the product of the first \<open>k + 1\<close> chain elements. The
  function returns the result of \<^verbatim>\<open>compute_pose_error\<close> (the position and orientation
  distance) on the first and the last of these poses.
\<close>

theorem loop_error_is_first_to_last:
  assumes "2 \<le> n" and "length ds = n choose 2"
  shows "\<exists>chain. calibration_transformation_chain lib (int n) (map Some ds) = Inr (map Some chain)
           \<and> length chain = n + 1
           \<and> chain_poses lib (map Some chain) dq_identity []
               = Inr (map (\<lambda>k. to_pose lib (foldl (dq_mul lib) dq_identity (take (Suc k) chain)))
                        [0..<n + 1])
           \<and> compute_loop_error lib (int n) (map Some ds) v
               = Inr (compute_pose_error lib
                        (to_pose lib (foldl (dq_mul lib) dq_identity (take 1 chain)))
                        (to_pose lib (foldl (dq_mul lib) dq_identity (take (n + 1) chain))))"
proof -
  define chain where
    "chain = dq_identity # ds ! 0 # map (\<lambda>b. ds ! block_start n b) [1..<n - 1]
               @ [dq_inverse lib (ds ! (n - 2))]"
  have c: "calibration_transformation_chain lib (int n) (map Some ds) = Inr (map Some chain)"
    unfolding chain_def by (rule chain_of_results [OF assms])
  have l: "length chain = n + 1" using assms(1) by (simp add: chain_def)
  then have ne: "chain \<noteq> []" by auto
  have p: "chain_poses lib (map Some chain) dq_identity []
      = Inr (map (\<lambda>k. to_pose lib (foldl (dq_mul lib) dq_identity (take (Suc k) chain)))
                        [0..<n + 1])"
    by (simp add: chain_poses_Some l del: upt_Suc)
  show ?thesis
    using c l p loop_error_of_chain [OF c ne, of v] by auto
qed

theorem loop_error_is_first_to_last_witness:
  "(2::nat) \<le> 3 \<and> length [shift_x 1, shift_x 3, shift_x 2] = 3 choose 2
   \<and> (\<exists>chain. calibration_transformation_chain sample_lib (int 3)
                 (map Some [shift_x 1, shift_x 3, shift_x 2]) = Inr (map Some chain)
           \<and> length chain = 3 + 1
           \<and> chain_poses sample_lib (map Some chain) dq_identity []
               = Inr (map (\<lambda>k. to_pose sample_lib
                                 (foldl (dq_mul sample_lib) dq_identity (take (Suc k) chain)))
                        [0..<3 + 1])
           \<and> compute_loop_error sample_lib (int 3) (map Some [shift_x 1, shift_x 3, shift_x 2]) True
               = Inr (compute_pose_error sample_lib
                        (to_pose sample_lib (foldl (dq_mul sample_lib) dq_identity (take 1 chain)))
                        (to_pose sample_lib
                           (foldl (dq_mul sample_lib) dq_identity (take (3 + 1) chain)))))"
proof -
  have h1: "(2::nat) \<le> 3" by simp
  have h2: "length [shift_x 1, shift_x 3, shift_x 2] = 3 choose 2"
    by (simp add: choose_two)
  show ?thesis
    using loop_error_is_first_to_last [OF h1 h2, of sample_lib True] h1 h2 by blast
qed

text \<open>
  Claim C6. For two pose files and the single pairwise result \<open>T\<close> the chain is the identity,
  \<open>T\<close> and the inverse of \<open>T\<close>. With the dual-quaternion operations over the reals, a
  rigid transform \<open>T\<close> multiplied by its inverse is the identity, so the first and the last
  pose are both the pose of the identity, and the loop error is zero in position and in
  orientation as soon as the pose error of the identity pose against itself is zero.
\<close>

theorem two_files_loop_error_zero:
  assumes "is_rigid_transform T"
    and "cpe (tp dq_identity) (tp dq_identity) = (0, 0)"
  shows "calibration_transformation_chain (real_dq_lib tp cpe) 2 [Some T]
           = Inr [Some dq_identity, Some T, Some (dq_inv T)]
       \<and> chain_poses (real_dq_lib tp cpe) [Some dq_identity, Some T, Some (dq_inv T)] dq_identity []
           = Inr [tp dq_identity, tp T, tp dq_identity]
       \<and> compute_loop_error (real_dq_lib tp cpe) 2 [Some T] v = Inr (0, 0)"
proof -
  let ?lib = "real_dq_lib tp cpe"
  have n0: "q_dot (q_rot T) (q_rot T) \<noteq> 0"
    using assms(1) by (simp add: is_rigid_transform_def)
  have c: "calibration_transformation_chain ?lib 2 [Some T]
      = Inr (map Some [dq_identity, T, dq_inv T])"
    by (simp add: calibration_transformation_chain_def py_index_def chain_loop.simps
        real_dq_lib_def)
  have f: "foldl (dq_mul ?lib) dq_identity [dq_identity, T, dq_inv T] = dq_identity"
    by (simp add: real_dq_lib_def dq_times_identity_left dq_times_inv [OF n0])
  have g: "foldl (dq_mul ?lib) dq_identity (take 1 [dq_identity, T, dq_inv T]) = dq_identity"
    by (simp add: real_dq_lib_def dq_times_identity_left)
  have p: "chain_poses ?lib [Some dq_identity, Some T, Some (dq_inv T)] dq_identity []
      = Inr [tp dq_identity, tp T, tp dq_identity]"
    by (simp add: real_dq_lib_def dq_times_identity_left dq_times_inv [OF n0])
  have "compute_loop_error ?lib 2 [Some T] v = Inr (0, 0)"
    using loop_error_of_chain [OF c, of v] assms(2)
    unfolding f g by (simp add: real_dq_lib_def)
  then show ?thesis using c p by simp
qed

theorem two_files_loop_error_zero_witness:
  "is_rigid_transform half_turn
   \<and> pose_error (dq_to_pose dq_identity) (dq_to_pose dq_identity) = (0, 0)
   \<and> calibration_transformation_chain sample_lib 2 [Some half_turn]
       = Inr [Some dq_identity, Some half_turn, Some (dq_inv half_turn)]
   \<and> compute_loop_error sample_lib 2 [Some half_turn] True = Inr (0, 0)"
proof -
  have h1: "is_rigid_transform half_turn"
    by (simp add: is_rigid_transform_def half_turn_def)
  have h2: "pose_error (dq_to_pose dq_identity) (dq_to_pose dq_identity) = (0, 0)"
    by (simp add: pose_error_def dq_identity_def)
  show ?thesis
    using two_files_loop_error_zero
            [where T = half_turn and cpe = pose_error and tp = dq_to_pose and v = True, OF h1 h2]
          h1 h2
    by (simp add: sample_lib_def)
qed

text \<open>
  Claim C10. For a fixed number of pose files, two lists of results that agree (as Python
  subscriptions, errors included) at index 0, at the indices reached by the stride of the
  loop and at index \<open>num_poses_sets - 2\<close> give the same outcome of
  \<^verbatim>\<open>compute_loop_error\<close>: the entries at all other indices have no influence.
\<close>

theorem loop_error_depends_on_chain_indices:
  assumes "\<forall>j \<in> set (0 # stride_indices N 0 0 @ [N - 2]). py_index r1 j = py_index r2 j"
  shows "compute_loop_error lib N r1 v = compute_loop_error lib N r2 v"
proof -
  have a: "py_index r1 0 = py_index r2 0" and b: "py_index r1 (N - 2) = py_index r2 (N - 2)"
    using assms by simp_all
  have c: "chain_loop N r1 0 0 ch = chain_loop N r2 0 0 ch" for ch
    using assms by (intro chain_loop_cong) simp
  have "calibration_transformation_chain lib N r1 = calibration_transformation_chain lib N r2"
    unfolding calibration_transformation_chain_def a b c ..
  then show ?thesis by (simp add: compute_loop_error_def)
qed

theorem loop_error_depends_on_chain_indices_witness:
  "stride_indices 4 0 0 = [3, 5]
   \<and> py_index [Some (shift_x 1), Some (shift_x 2), Some (shift_x 3), Some (shift_x 1), Some (shift_x 2), Some (shift_x 1)] 0
     = py_index [Some (shift_x 1), None, Some (shift_x 3), Some (shift_x 1), Some half_turn, Some (shift_x 1)] 0
   \<and> py_index [Some (shift_x 1), Some (shift_x 2), Some (shift_x 3), Some (shift_x 1), Some (shift_x 2), Some (shift_x 1)] 3
     = py_index [Some (shift_x 1), None, Some (shift_x 3), Some (shift_x 1), Some half_turn, Some (shift_x 1)] 3
   \<and> py_index [Some (shift_x 1), Some (shift_x 2), Some (shift_x 3), Some (shift_x 1), Some (shift_x 2), Some (shift_x 1)] 5
     = py_index [Some (shift_x 1), None, Some (shift_x 3), Some (shift_x 1), Some half_turn, Some (shift_x 1)] 5
   \<and> py_index [Some (shift_x 1), Some (shift_x 2), Some (shift_x 3), Some (shift_x 1), Some (shift_x 2), Some (shift_x 1)] (4 - 2)
     = py_index [Some (shift_x 1), None, Some (shift_x 3), Some (shift_x 1), Some half_turn, Some (shift_x 1)] (4 - 2)
   \<and> compute_loop_error sample_lib 4
        [Some (shift_x 1), Some (shift_x 2), Some (shift_x 3), Some (shift_x 1), Some (shift_x 2), Some (shift_x 1)] True
     = compute_loop_error sample_lib 4
        [Some (shift_x 1), None, Some (shift_x 3), Some (shift_x 1), Some half_turn, Some (shift_x 1)] True"
proof -
  have s: "stride_indices 4 0 0 = [3, 5]"
    by (simp add: stride_indices.simps)
  have h: "\<forall>j \<in> set (0 # stride_indices 4 0 0 @ [4 - 2]).
      py_index [Some (shift_x 1), Some (shift_x 2), Some (shift_x 3), Some (shift_x 1), Some (shift_x 2), Some (shift_x 1)] j
    = py_index [Some (shift_x 1), None, Some (shift_x 3), Some (shift_x 1), Some half_turn, Some (shift_x 1)] j"
    by (simp add: s py_index_def)
  show ?thesis
    using loop_error_depends_on_chain_indices [OF h, of sample_lib True] h s by simp
qed

section \<open>The claims about the driver\<close>

subsection \<open>Auxiliary facts\<close>

lemmas driver_defs =
  main_def run_config_def run_iteration_def process_pair_def initial_calibration_def
  fill_result_entry_def store_initial_def store_optimized_def verify_and_close_loop_def
  iterations_of_def py_sum_bools_def new_ResultEntry_def initial_state_def

lemmas sample_defs =
  sample_externals_def sample_args_def sample_config_def sample_hand_eye_config_def
  sample_solver_def sample_estimate_def sample_pairs_def sample_vars_def sample_entry_def
  sample_state_def

lemma choose_two_eq_self:
  assumes "2 \<le> (n::nat)" and "n * (n - 1) div 2 = n"
  shows "n = 3"
proof (rule ccontr)
  assume "n \<noteq> 3"
  then consider "n = 2" | "4 \<le> n" using assms(1) by linarith
  then show False
  proof cases
    case 1
    then show False using assms(2) by simp
  next
    case 2
    then have "n * 3 \<le> n * (n - 1)" by (intro mult_le_mono) simp_all
    then have "n * 3 div 2 \<le> n * (n - 1) div 2" by (rule div_le_mono)
    then show False using assms(2) 2 by linarith
  qed
qed

lemma main_needs_three_files:
  assumes "main lib ext a = Inr s"
  shows "length (aligned_poses_B_H_csv_files a) = 3"
proof -
  let ?n = "length (aligned_poses_B_H_csv_files a)"
  have a: "2 \<le> ?n"
    using assms by (auto simp: main_def Let_def split: if_splits)
  have "length (combinations2 (aligned_poses_B_H_csv_files a)) = ?n"
    using assms by (auto simp: main_def Let_def split: if_splits)
  then have "?n * (?n - 1) div 2 = ?n" by (simp add: length_combinations2)
  with a show ?thesis by (rule choose_two_eq_self)
qed

lemma for_each_frame:
  assumes "\<And>x s s'. body x s = Inr s' \<Longrightarrow> f s' = f s"
    and "for_each body xs s = Inr s'"
  shows "f s' = f s"
  using assms(2)
proof (induction xs arbitrary: s)
  case Nil
  then show ?case by simp
next
  case (Cons x xs)
  then obtain s1 where b: "body x s = Inr s1" and r: "for_each body xs s1 = Inr s'"
    by (auto split: sum.splits)
  show ?case using Cons.IH [OF r] assms(1) [OF b] by simp
qed

lemma for_each_count:
  assumes "\<And>x s s'. body x s = Inr s' \<Longrightarrow> f s' = Suc (f s)"
    and "for_each body xs s = Inr s'"
  shows "f s' = f s + length xs"
  using assms(2)
proof (induction xs arbitrary: s)
  case Nil
  then show ?case by simp
next
  case (Cons x xs)
  then obtain s1 where b: "body x s = Inr s1" and r: "for_each body xs s1 = Inr s'"
    by (auto split: sum.splits)
  show ?case using Cons.IH [OF r] assms(1) [OF b] by simp
qed

lemma process_pair_results_file:
  "process_pair lib ext alg hc oc it pair s = Inr s' \<Longrightarrow> results_file s' = results_file s"
  by (auto simp: process_pair_def store_optimized_def store_initial_def Let_def
      split: sum.splits if_splits option.splits prod.splits)

lemma verify_and_close_loop_results_file:
  "verify_and_close_loop lib ext n k s = Inr s' \<Longrightarrow> results_file s' = results_file s"
  by (auto simp: verify_and_close_loop_def split: if_splits sum.splits prod.splits)

lemma run_iteration_results_file:
  assumes "run_iteration lib ext n pairs alg hc oc it s = Inr s'"
  shows "length (results_file s') = Suc (length (results_file s))"
proof -
  from assms obtain s1 s2 where
    a: "for_each (process_pair lib ext alg hc oc it) pairs
          (s\<lparr>result_entry := new_ResultEntry, results_dq_H_E := [],
             results_poses_H_E := [], pose_pair_num := 0\<rparr>) = Inr s1"
    and b: "verify_and_close_loop lib ext n (length pairs) s1 = Inr s2"
    and c: "s' = s2\<lparr>results_file := results_file s2 @ [result_entry s2]\<rparr>"
    by (auto simp: run_iteration_def split: sum.splits)
  have "results_file s1 = results_file s"
    using for_each_frame [where f = results_file, OF process_pair_results_file a] by simp
  moreover have "results_file s2 = results_file s1"
    using b by (rule verify_and_close_loop_results_file)
  ultimately show ?thesis by (simp add: c)
qed

lemma for_each_append:
  "for_each body (xs @ ys) s =
     (case for_each body xs s of Inl e \<Rightarrow> Inl e | Inr s' \<Rightarrow> for_each body ys s')"
  by (induction xs arbitrary: s) (auto split: sum.splits)

lemma process_pair_appends:
  assumes "process_pair lib ext alg hc oc it pair s = Inr s'"
  shows "\<exists>d p b. results_dq_H_E s' = results_dq_H_E s @ [d]
           \<and> results_poses_H_E s' = results_poses_H_E s @ [p]
           \<and> optimization_success (result_entry s') = optimization_success (result_entry s) @ [b]"
  using assms
  by (auto simp: process_pair_def store_optimized_def store_initial_def fill_result_entry_def
      Let_def split: sum.splits if_splits option.splits prod.splits)

lemma for_each_pairs_append:
  assumes "for_each (process_pair lib ext alg hc oc it) pairs s = Inr s'"
  shows "\<exists>ds ps bs. results_dq_H_E s' = results_dq_H_E s @ ds \<and> length ds = length pairs
           \<and> results_poses_H_E s' = results_poses_H_E s @ ps \<and> length ps = length pairs
           \<and> optimization_success (result_entry s')
               = optimization_success (result_entry s) @ bs \<and> length bs = length pairs"
  using assms
proof (induction pairs arbitrary: s)
  case Nil
  then show ?case by simp
next
  case (Cons pair pairs)
  then obtain s1 where a: "process_pair lib ext alg hc oc it pair s = Inr s1"
    and b: "for_each (process_pair lib ext alg hc oc it) pairs s1 = Inr s'"
    by (auto split: sum.splits)
  from process_pair_appends [OF a] obtain d p b0 where
    1: "results_dq_H_E s1 = results_dq_H_E s @ [d]"
       "results_poses_H_E s1 = results_poses_H_E s @ [p]"
       "optimization_success (result_entry s1) = optimization_success (result_entry s) @ [b0]"
    by blast
  from Cons.IH [OF b] obtain ds ps bs where
    2: "results_dq_H_E s' = results_dq_H_E s1 @ ds" "length ds = length pairs"
       "results_poses_H_E s' = results_poses_H_E s1 @ ps" "length ps = length pairs"
       "optimization_success (result_entry s') = optimization_success (result_entry s1) @ bs"
       "length bs = length pairs"
    by blast
  show ?case
  proof (intro exI conjI)
    show "results_dq_H_E s' = results_dq_H_E s @ (d # ds)" by (simp add: 1 2)
    show "results_poses_H_E s' = results_poses_H_E s @ (p # ps)" by (simp add: 1 2)
    show "optimization_success (result_entry s')
        = optimization_success (result_entry s) @ (b0 # bs)" by (simp add: 1 2)
  qed (simp_all add: 2)
qed

lemma py_sum_bools_False: "False \<in> set bs \<Longrightarrow> py_sum_bools bs < length bs"
  unfolding py_sum_bools_def by (rule length_filter_less [of False]) simp_all

lemma iteration_after_optimizer_failure:
  assumes pre: "for_each (process_pair lib ext alg hc oc it) pre
                  (t\<lparr>result_entry := new_ResultEntry, results_dq_H_E := [],
                     results_poses_H_E := [], pose_pair_num := 0\<rparr>) = Inr s"
    and step: "process_pair lib ext alg hc oc it pair s = Inr s'"
    and failed: "results_dq_H_E s' = results_dq_H_E s @ [None]"
      "results_poses_H_E s' = results_poses_H_E s @ [None]"
      "optimization_success (result_entry s') = optimization_success (result_entry s) @ [False]"
    and post: "for_each (process_pair lib ext alg hc oc it) post s' = Inr s1"
    and chk: "check_length ext (result_entry s1) (length (pre @ pair # post))"
  shows "results_dq_H_E s1 ! length pre = None
       \<and> optimization_success (result_entry s1) ! length pre = False
       \<and> run_iteration lib ext n (pre @ pair # post) alg hc oc it t =
           Inr (s1\<lparr>console := console s1 @
                    [''Error: No loop error computed because not all pose pairs were successfully calibrated!''],
                   results_file := results_file s1 @ [result_entry s1]\<rparr>)"
proof -
  from for_each_pairs_append [OF pre] have
    a: "length (results_dq_H_E s) = length pre" "length (results_poses_H_E s) = length pre"
       "length (optimization_success (result_entry s)) = length pre"
    by (auto simp: new_ResultEntry_def)
  from for_each_pairs_append [OF post] obtain ds ps bs where
    b: "results_dq_H_E s1 = results_dq_H_E s' @ ds" "length ds = length post"
       "results_poses_H_E s1 = results_poses_H_E s' @ ps" "length ps = length post"
       "optimization_success (result_entry s1) = optimization_success (result_entry s') @ bs"
       "length bs = length post"
    by blast
  have l: "length (results_dq_H_E s1) = length (pre @ pair # post)"
    "length (results_poses_H_E s1) = length (pre @ pair # post)"
    "length (optimization_success (result_entry s1)) = length (pre @ pair # post)"
    by (simp_all add: a b failed)
  have i1: "results_dq_H_E s1 ! length pre = None"
    using a by (simp add: b failed nth_append)
  have i2: "optimization_success (result_entry s1) ! length pre = False"
    using a by (simp add: b failed nth_append)
  have "False \<in> set (optimization_success (result_entry s1))"
    by (simp add: b failed)
  then have "py_sum_bools (optimization_success (result_entry s1)) < length (pre @ pair # post)"
    using py_sum_bools_False l(3) by metis
  then have v: "verify_and_close_loop lib ext n (length (pre @ pair # post)) s1 =
      Inr (s1\<lparr>console := console s1 @
        [''Error: No loop error computed because not all pose pairs were successfully calibrated!'']\<rparr>)"
    using chk l by (simp add: verify_and_close_loop_def)
  have f: "for_each (process_pair lib ext alg hc oc it) (pre @ pair # post)
             (t\<lparr>result_entry := new_ResultEntry, results_dq_H_E := [],
                results_poses_H_E := [], pose_pair_num := 0\<rparr>) = Inr s1"
    by (simp add: for_each_append pre step post)
  have "run_iteration lib ext n (pre @ pair # post) alg hc oc it t =
           Inr (s1\<lparr>console := console s1 @
                    [''Error: No loop error computed because not all pose pairs were successfully calibrated!''],
                   results_file := results_file s1 @ [result_entry s1]\<rparr>)"
    using v by (simp add: run_iteration_def f)
  then show ?thesis using i1 i2 by simp
qed

subsection \<open>Number of pose pairs\<close>

text \<open>
  Claim C3. The claim says that the driver processes the one pair of two input files. The
  assertion of line 132 compares the number of pairs, \<open>1\<close>, with the number of sensor
  flags, \<open>2\<close>: a run with two pose files stops there with an AssertionError before any
  pair is processed, whether the flags are given or not. (By \<open>main_needs_three_files\<close>
  the run gets past this assertion for three files only.)
\<close>

theorem main_rejects_two_files:
  "main lib ext (a\<lparr>aligned_poses_B_H_csv_files := [f, g], is_absolute_pose_sensor := None\<rparr>)
     = Inl (AssertionError 132)
   \<and> main lib ext (a\<lparr>aligned_poses_B_H_csv_files := [f, g], is_absolute_pose_sensor := Some [x, y]\<rparr>)
     = Inl (AssertionError 132)"
  by (simp add: main_def)

subsection \<open>A failed solve\<close>

text \<open>
  Claim C4. The claim says that after a failed solve the loop error is skipped with a
  reported reason. In the run over the three sample files with the optimizer disabled the
  solver fails on the second pair: the loop over the pairs goes on to the third pair and
  records \<^verbatim>\<open>success = False\<close> and the estimate \<^verbatim>\<open>None\<close>, but
  \<^verbatim>\<open>optimization_success\<close> is \<^verbatim>\<open>True\<close> for all three pairs, so the check of line 358
  passes, nothing is printed, \<^verbatim>\<open>compute_loop_error\<close> is called and raises AttributeError
  on \<^verbatim>\<open>None\<close>, which ends the run.
\<close>

theorem failed_solve_reaches_loop_error:
  "main sample_lib (sample_externals\<lparr>get_all_configs := [sample_config ''failing'' False False]\<rparr>)
     sample_args = Inl AttributeError
   \<and> (\<exists>s1. for_each (process_pair sample_lib sample_externals ''failing'' sample_hand_eye_config
                       \<lparr>optimization_only = False, enable_optimization = False\<rparr> 0)
               sample_pairs initial_state = Inr s1
           \<and> success (result_entry s1) = [True, False, True]
           \<and> results_dq_H_E s1 = [Some (shift_x 1), None, Some (shift_x 2)]
           \<and> optimization_success (result_entry s1) = [True, True, True]
           \<and> console s1 = []
           \<and> verify_and_close_loop sample_lib sample_externals 3 3 s1 = Inl AttributeError)"
  by (simp add: driver_defs sample_defs compute_loop_error_def
      calibration_transformation_chain_def chain_loop.simps py_index_def numeral_2_eq_2)

subsection \<open>A failed optimizer call\<close>

text \<open>
  Claim C7. When a pose pair reaches the optimizer call (its initial calibration and the
  filling of the result entry did not raise) and \<^verbatim>\<open>run\<close> raises, the body of the loop
  returns normally. In the new state \<^verbatim>\<open>results_dq_H_E\<close> and \<^verbatim>\<open>results_poses_H_E\<close> are
  the old lists with \<^verbatim>\<open>None\<close> appended, \<^verbatim>\<open>optimization_success\<close> is the old list with
  \<^verbatim>\<open>False\<close> appended, the message is printed, and every list of the result entry is the
  old list with one element appended for this pair: the entries of the earlier pairs and
  the results file are unchanged.

  The run is not aborted afterwards either. Let the pair be preceded by the pairs \<open>pre\<close>
  and followed by the pairs \<open>post\<close> in an iteration, and let the bodies of the pairs
  \<open>post\<close> return as well. Then the entry of this pair is still \<^verbatim>\<open>None\<close> and \<^verbatim>\<open>False\<close>
  at the end of the loop, the check of line 358 fails, \<^verbatim>\<open>compute_loop_error\<close> is not
  called, the message of line 362 is printed, and the iteration returns normally with
  its result entry written (provided the method \<^verbatim>\<open>check_length\<close> of the missing class
  \<^verbatim>\<open>ResultEntry\<close> accepts the entry).
\<close>

theorem optimizer_failure_is_contained:
  assumes "initial_calibration ext hc oc (alg, it, pose_pair_num s) (fst pair) (vars s) = Inr vs"
    and "fill_result_entry (fst pair) vs (result_entry s) = Inr re"
    and "enable_optimization oc"
    and "run ext (alg, it, pose_pair_num s) (fst (fst pair)) (snd (fst pair))
           (fst (snd pair)) (snd (snd pair)) = Some ex"
  shows "process_pair lib ext alg hc oc it pair s =
           Inr (s\<lparr>vars := vs,
                  result_entry := re
                    \<lparr>optimization_success := optimization_success (result_entry s) @ [False],
                     rmse := rmse (result_entry s) @ [(- 1, - 1)],
                     num_inliers := num_inliers (result_entry s) @ [0]\<rparr>,
                  results_poses_H_E := results_poses_H_E s @ [None],
                  results_dq_H_E := results_dq_H_E s @ [None],
                  console := console s @ [''Optimization failed: '' @ ex],
                  pose_pair_num := pose_pair_num s + 1\<rparr>)
       \<and> (\<exists>a b c d e f.
             re = (result_entry s)
                    \<lparr>dataset_names := dataset_names (result_entry s) @ [fst pair],
                     success := success (result_entry s) @ [a],
                     num_initial_poses := num_initial_poses (result_entry s) @ [b],
                     num_poses_kept := num_poses_kept (result_entry s) @ [c],
                     runtimes := runtimes (result_entry s) @ [d],
                     singular_values := singular_values (result_entry s) @ [e],
                     bad_singular_value := bad_singular_value (result_entry s) @ [f]\<rparr>)
       \<and> (for_each (process_pair lib ext alg hc oc it) pre
              (t\<lparr>result_entry := new_ResultEntry, results_dq_H_E := [],
                 results_poses_H_E := [], pose_pair_num := 0\<rparr>) = Inr s
            \<and> process_pair lib ext alg hc oc it pair s = Inr s'
            \<and> for_each (process_pair lib ext alg hc oc it) post s' = Inr sf
            \<and> check_length ext (result_entry sf) (length (pre @ pair # post)) \<longrightarrow>
            results_dq_H_E sf ! length pre = None
            \<and> optimization_success (result_entry sf) ! length pre = False
            \<and> run_iteration lib ext n (pre @ pair # post) alg hc oc it t =
                Inr (sf\<lparr>console := console sf @
                        [''Error: No loop error computed because not all pose pairs were successfully calibrated!''],
                       results_file := results_file sf @ [result_entry sf]\<rparr>))"
proof -
  have re: "\<exists>a b c d e f.
             re = (result_entry s)
                    \<lparr>dataset_names := dataset_names (result_entry s) @ [fst pair],
                     success := success (result_entry s) @ [a],
                     num_initial_poses := num_initial_poses (result_entry s) @ [b],
                     num_poses_kept := num_poses_kept (result_entry s) @ [c],
                     runtimes := runtimes (result_entry s) @ [d],
                     singular_values := singular_values (result_entry s) @ [e],
                     bad_singular_value := bad_singular_value (result_entry s) @ [f]\<rparr>"
    using assms(2)
    by (auto simp: fill_result_entry_def Let_def split: option.splits prod.splits intro!: exI)
  then have k: "optimization_success re = optimization_success (result_entry s)"
    "rmse re = rmse (result_entry s)" "num_inliers re = num_inliers (result_entry s)"
    by auto
  have "process_pair lib ext alg hc oc it pair s =
           Inr (s\<lparr>vars := vs,
                  result_entry := re
                    \<lparr>optimization_success := optimization_success (result_entry s) @ [False],
                     rmse := rmse (result_entry s) @ [(- 1, - 1)],
                     num_inliers := num_inliers (result_entry s) @ [0]\<rparr>,
                  results_poses_H_E := results_poses_H_E s @ [None],
                  results_dq_H_E := results_dq_H_E s @ [None],
                  console := console s @ [''Optimization failed: '' @ ex],
                  pose_pair_num := pose_pair_num s + 1\<rparr>)"
    using assms(1,3,4) by (simp add: process_pair_def assms(2) store_optimized_def k)
  note pp = this
  have "results_dq_H_E sf ! length pre = None
      \<and> optimization_success (result_entry sf) ! length pre = False
      \<and> run_iteration lib ext n (pre @ pair # post) alg hc oc it t =
          Inr (sf\<lparr>console := console sf @
                  [''Error: No loop error computed because not all pose pairs were successfully calibrated!''],
                 results_file := results_file sf @ [result_entry sf]\<rparr>)"
    if h: "for_each (process_pair lib ext alg hc oc it) pre
              (t\<lparr>result_entry := new_ResultEntry, results_dq_H_E := [],
                 results_poses_H_E := [], pose_pair_num := 0\<rparr>) = Inr s
            \<and> process_pair lib ext alg hc oc it pair s = Inr s'
            \<and> for_each (process_pair lib ext alg hc oc it) post s' = Inr sf
            \<and> check_length ext (result_entry sf) (length (pre @ pair # post))"
  proof -
    have e: "s' = s\<lparr>vars := vs,
                  result_entry := re
                    \<lparr>optimization_success := optimization_success (result_entry s) @ [False],
                     rmse := rmse (result_entry s) @ [(- 1, - 1)],
                     num_inliers := num_inliers (result_entry s) @ [0]\<rparr>,
                  results_poses_H_E := results_poses_H_E s @ [None],
                  results_dq_H_E := results_dq_H_E s @ [None],
                  console := console s @ [''Optimization failed: '' @ ex],
                  pose_pair_num := pose_pair_num s + 1\<rparr>"
      using h pp by simp
    have f: "results_dq_H_E s' = results_dq_H_E s @ [None]"
      "results_poses_H_E s' = results_poses_H_E s @ [None]"
      "optimization_success (result_entry s') = optimization_success (result_entry s) @ [False]"
      by (simp_all add: e)
    show ?thesis
      using h by (intro iteration_after_optimizer_failure [where s = s and s' = s'] f) simp_all
  qed
  then show ?thesis using pp re by blast
qed



theorem optimizer_failure_is_contained_witness:
  "initial_calibration sample_externals sample_hand_eye_config
      \<lparr>optimization_only = False, enable_optimization = True\<rparr>
      (''crashing'', 0, pose_pair_num sample_state) (''a.csv'', ''c.csv'') (vars sample_state)
     = Inr sample_vars
   \<and> fill_result_entry (''a.csv'', ''c.csv'') sample_vars (result_entry sample_state)
     = Inr (sample_entry
              \<lparr>dataset_names := [(''a.csv'', ''b.csv''), (''a.csv'', ''c.csv'')],
               success := [True, True], num_initial_poses := [2, 2], num_poses_kept := [2, 2],
               runtimes := [0, 0], singular_values := [[0, 0], [0, 0]],
               bad_singular_value := [False, False]\<rparr>)
   \<and> enable_optimization \<lparr>optimization_only = False, enable_optimization = True\<rparr>
   \<and> run sample_externals (''crashing'', 0, pose_pair_num sample_state) ''a.csv'' ''c.csv''
         False False = Some ''exit status 1''
   \<and> process_pair sample_lib sample_externals ''crashing'' sample_hand_eye_config
         \<lparr>optimization_only = False, enable_optimization = True\<rparr> 0
         ((''a.csv'', ''c.csv''), (False, False)) sample_state
     = Inr (sample_state
              \<lparr>vars := sample_vars,
               result_entry := sample_entry
                 \<lparr>dataset_names := [(''a.csv'', ''b.csv''), (''a.csv'', ''c.csv'')],
                  success := [True, True], num_initial_poses := [2, 2],
                  num_poses_kept := [2, 2], runtimes := [0, 0],
                  singular_values := [[0, 0], [0, 0]], bad_singular_value := [False, False],
                  optimization_success := [True, False], rmse := [(0, 0), (- 1, - 1)],
                  num_inliers := [2, 0]\<rparr>,
               results_poses_H_E := [Some (dq_to_pose (shift_x 1)), None],
               results_dq_H_E := [Some (shift_x 1), None],
               console := [''Optimization failed: exit status 1''],
               pose_pair_num := 2\<rparr>)
   \<and> for_each (process_pair sample_lib sample_externals ''crashing'' sample_hand_eye_config
                  \<lparr>optimization_only = False, enable_optimization = True\<rparr> 0)
         [((''a.csv'', ''b.csv''), (False, False))]
         (initial_state\<lparr>result_entry := new_ResultEntry, results_dq_H_E := [],
            results_poses_H_E := [], pose_pair_num := 0\<rparr>) = Inr sample_state
   \<and> (\<exists>s2. run_iteration sample_lib sample_externals 3 sample_pairs ''crashing''
               sample_hand_eye_config \<lparr>optimization_only = False, enable_optimization = True\<rparr>
               0 initial_state = Inr s2
           \<and> results_dq_H_E s2 = [Some (shift_x 1), None, Some (shift_x 2)]
           \<and> optimization_success (result_entry s2) = [True, False, True]
           \<and> loop_error_position (result_entry s2) = None
           \<and> results_file s2 = [result_entry s2]
           \<and> console s2 = [''Optimization failed: exit status 1'',
                 ''Error: No loop error computed because not all pose pairs were successfully calibrated!''])"
proof -
  let ?oc = "\<lparr>optimization_only = False, enable_optimization = True\<rparr>"
  let ?pre = "[((''a.csv'', ''b.csv''), (False, False))]"
  let ?pair = "((''a.csv'', ''c.csv''), (False, False))"
  let ?post = "[((''b.csv'', ''c.csv''), (False, False))]"
  let ?body = "process_pair sample_lib sample_externals ''crashing'' sample_hand_eye_config ?oc 0"
  let ?re = "sample_entry
              \<lparr>dataset_names := [(''a.csv'', ''b.csv''), (''a.csv'', ''c.csv'')],
               success := [True, True], num_initial_poses := [2, 2], num_poses_kept := [2, 2],
               runtimes := [0, 0], singular_values := [[0, 0], [0, 0]],
               bad_singular_value := [False, False]\<rparr>"
  let ?s' = "sample_state
              \<lparr>vars := sample_vars,
               result_entry := ?re
                 \<lparr>optimization_success := optimization_success (result_entry sample_state) @ [False],
                  rmse := rmse (result_entry sample_state) @ [(- 1, - 1)],
                  num_inliers := num_inliers (result_entry sample_state) @ [0]\<rparr>,
               results_poses_H_E := results_poses_H_E sample_state @ [None],
               results_dq_H_E := results_dq_H_E sample_state @ [None],
               console := console sample_state @ [''Optimization failed: '' @ ''exit status 1''],
               pose_pair_num := pose_pair_num sample_state + 1\<rparr>"
  have h1: "initial_calibration sample_externals sample_hand_eye_config ?oc
      (''crashing'', 0, pose_pair_num sample_state) (fst ?pair) (vars sample_state)
     = Inr sample_vars"
    by (simp add: initial_calibration_def sample_defs)
  have h2: "fill_result_entry (fst ?pair) sample_vars (result_entry sample_state) = Inr ?re"
    by (simp add: fill_result_entry_def sample_defs)
  have h3: "enable_optimization ?oc" by simp
  have h4: "run sample_externals (''crashing'', 0, pose_pair_num sample_state)
      (fst (fst ?pair)) (snd (fst ?pair)) (fst (snd ?pair)) (snd (snd ?pair))
     = Some ''exit status 1''"
    by (simp add: sample_defs)
  have h5: "for_each ?body ?pre
         (initial_state\<lparr>result_entry := new_ResultEntry, results_dq_H_E := [],
            results_poses_H_E := [], pose_pair_num := 0\<rparr>) = Inr sample_state"
    by (simp add: driver_defs sample_defs sample_lib_def real_dq_lib_def)
  have "\<exists>s1. for_each ?body ?post ?s' = Inr s1
      \<and> check_length sample_externals (result_entry s1) (length (?pre @ ?pair # ?post))
      \<and> results_dq_H_E s1 = [Some (shift_x 1), None, Some (shift_x 2)]
      \<and> optimization_success (result_entry s1) = [True, False, True]
      \<and> loop_error_position (result_entry s1) = None
      \<and> results_file s1 = []
      \<and> console s1 = [''Optimization failed: exit status 1'']"
    by (simp add: driver_defs sample_defs sample_lib_def real_dq_lib_def)
  then obtain s1 where h7: "for_each ?body ?post ?s' = Inr s1"
    and h8: "check_length sample_externals (result_entry s1) (length (?pre @ ?pair # ?post))"
    and o: "results_dq_H_E s1 = [Some (shift_x 1), None, Some (shift_x 2)]"
      "optimization_success (result_entry s1) = [True, False, True]"
      "loop_error_position (result_entry s1) = None"
      "results_file s1 = []"
      "console s1 = [''Optimization failed: exit status 1'']"
    by blast
  note t = optimizer_failure_is_contained [OF h1 h2 h3 h4, where lib = sample_lib
      and pre = ?pre and post = ?post and t = initial_state and s' = ?s' and sf = s1 and n = 3]
  have h6: "?body ?pair sample_state = Inr ?s'"
    using t by blast
  have "run_iteration sample_lib sample_externals 3 (?pre @ ?pair # ?post) ''crashing''
      sample_hand_eye_config ?oc 0 initial_state =
        Inr (s1\<lparr>console := console s1 @
                [''Error: No loop error computed because not all pose pairs were successfully calibrated!''],
               results_file := results_file s1 @ [result_entry s1]\<rparr>)"
    using t h5 h6 h7 h8 by blast
  moreover have "sample_pairs = ?pre @ ?pair # ?post"
    by (simp add: sample_pairs_def)
  ultimately have r: "\<exists>s2. run_iteration sample_lib sample_externals 3 sample_pairs ''crashing''
               sample_hand_eye_config ?oc 0 initial_state = Inr s2
           \<and> results_dq_H_E s2 = [Some (shift_x 1), None, Some (shift_x 2)]
           \<and> optimization_success (result_entry s2) = [True, False, True]
           \<and> loop_error_position (result_entry s2) = None
           \<and> results_file s2 = [result_entry s2]
           \<and> console s2 = [''Optimization failed: exit status 1'',
                 ''Error: No loop error computed because not all pose pairs were successfully calibrated!'']"
    using o by simp
  have p: "?body ?pair sample_state
     = Inr (sample_state
              \<lparr>vars := sample_vars,
               result_entry := sample_entry
                 \<lparr>dataset_names := [(''a.csv'', ''b.csv''), (''a.csv'', ''c.csv'')],
                  success := [True, True], num_initial_poses := [2, 2],
                  num_poses_kept := [2, 2], runtimes := [0, 0],
                  singular_values := [[0, 0], [0, 0]], bad_singular_value := [False, False],
                  optimization_success := [True, False], rmse := [(0, 0), (- 1, - 1)],
                  num_inliers := [2, 0]\<rparr>,
               results_poses_H_E := [Some (dq_to_pose (shift_x 1)), None],
               results_dq_H_E := [Some (shift_x 1), None],
               console := [''Optimization failed: exit status 1''],
               pose_pair_num := 2\<rparr>)"
    using h6 by (simp add: sample_state_def sample_entry_def)
  show ?thesis
    using h1 h2 h3 h4 h5 p r by simp
qed

subsection \<open>Number of iterations\<close>

text \<open>
  Claim C8. Every iteration appends one result entry to the results file. A run of a
  configuration that returns has made exactly one iteration when
  \<^verbatim>\<open>enable_exhaustive_search\<close> or \<^verbatim>\<open>use_baseline_approach\<close> is set, whatever
  \<^verbatim>\<open>--num_iterations\<close> is, and otherwise as many iterations as \<^verbatim>\<open>--num_iterations\<close>
  asks for (none for a number below zero, \<^verbatim>\<open>range\<close> being empty then).
\<close>

theorem iterations_per_configuration:
  assumes "run_config lib ext a n pairs (algorithm_name, filtering_config, hc, oc) s = Inr s'"
  shows "(enable_exhaustive_search hc \<or> use_baseline_approach hc \<longrightarrow>
            length (results_file s') = length (results_file s) + 1)
       \<and> (\<not> (enable_exhaustive_search hc \<or> use_baseline_approach hc) \<longrightarrow>
            int (length (results_file s')) = int (length (results_file s)) + max 0 (num_iterations a))"
proof -
  define hc' where "hc' = hc\<lparr>hc_visualize := visualize a, hc_plot_every_nth_pose := plot_every_nth_pose a\<rparr>"
  have r: "for_each (run_iteration lib ext n pairs algorithm_name hc' oc)
             [0..<nat (iterations_of hc' a)] s = Inr s'"
    using assms by (simp add: run_config_def hc'_def Let_def)
  have "length (results_file s') = length (results_file s) + length [0..<nat (iterations_of hc' a)]"
    using for_each_count [where f = "\<lambda>s. length (results_file s)", OF run_iteration_results_file r] .
  then have "length (results_file s') = length (results_file s) + nat (iterations_of hc' a)"
    by simp
  then show ?thesis
    by (auto simp: iterations_of_def hc'_def)
qed

theorem iterations_per_configuration_witness:
  "(\<exists>s'. run_config sample_lib sample_externals sample_args 3 sample_pairs
            (''baseline'', ''default'', sample_hand_eye_config\<lparr>use_baseline_approach := True\<rparr>,
             \<lparr>optimization_only = False, enable_optimization = False\<rparr>) initial_state = Inr s'
        \<and> length (results_file s') = length (results_file initial_state) + 1)
   \<and> (\<exists>s'. run_config sample_lib sample_externals sample_args 3 sample_pairs
            (''ransac'', ''default'', sample_hand_eye_config,
             \<lparr>optimization_only = False, enable_optimization = False\<rparr>) initial_state = Inr s'
        \<and> int (length (results_file s'))
            = int (length (results_file initial_state)) + max 0 (num_iterations sample_args))"
proof -
  have "\<exists>s'. run_config sample_lib sample_externals sample_args 3 sample_pairs
            (''baseline'', ''default'', sample_hand_eye_config\<lparr>use_baseline_approach := True\<rparr>,
             \<lparr>optimization_only = False, enable_optimization = False\<rparr>) initial_state = Inr s'"
    by (simp add: driver_defs sample_defs compute_loop_error_def
        calibration_transformation_chain_def chain_loop.simps py_index_def sample_lib_def
        real_dq_lib_def case_prod_beta)
  then obtain s1 where s1: "run_config sample_lib sample_externals sample_args 3 sample_pairs
            (''baseline'', ''default'', sample_hand_eye_config\<lparr>use_baseline_approach := True\<rparr>,
             \<lparr>optimization_only = False, enable_optimization = False\<rparr>) initial_state = Inr s1"
    by blast
  have "\<exists>s'. run_config sample_lib sample_externals sample_args 3 sample_pairs
            (''ransac'', ''default'', sample_hand_eye_config,
             \<lparr>optimization_only = False, enable_optimization = False\<rparr>) initial_state = Inr s'"
    by (simp add: driver_defs sample_defs compute_loop_error_def
        calibration_transformation_chain_def chain_loop.simps py_index_def sample_lib_def
        real_dq_lib_def numeral_2_eq_2 case_prod_beta)
  then obtain s2 where s2: "run_config sample_lib sample_externals sample_args 3 sample_pairs
            (''ransac'', ''default'', sample_hand_eye_config,
             \<lparr>optimization_only = False, enable_optimization = False\<rparr>) initial_state = Inr s2"
    by blast
  have a: "length (results_file s1) = length (results_file initial_state) + 1"
    using iterations_per_configuration [OF s1] by (simp add: sample_hand_eye_config_def)
  have b: "int (length (results_file s2))
            = int (length (results_file initial_state)) + max 0 (num_iterations sample_args)"
    using iterations_per_configuration [OF s2] by (simp add: sample_hand_eye_config_def)
  show ?thesis using s1 s2 a b by blast
qed

subsection \<open>The optimization-only mode\<close>

text \<open>
  Claim C9. In the optimization-only mode the body of the loop assigns none of the
  variables from which it fills the result entry. When the solver tuple has never been
  assigned, the pair raises NameError for \<^verbatim>\<open>success\<close>; this is what a run over three
  files does on its first pair when its first configuration is optimization-only. When the
  variables are assigned, the values appended to the result entry are the ones the
  variables had before the pair, and the variables are left as they were.
\<close>

theorem optimization_only_reads_stale_variables:
  assumes "optimization_only oc"
  shows "(var_solver_tuple (vars s) = None \<longrightarrow>
            process_pair lib ext alg hc oc it pair s = Inl (NameError ''success''))
       \<and> (var_solver_tuple (vars s)
              = Some (success_v, dq_H_E, rmse_v, num_inliers_v, num_poses_kept_v, runtime,
                      singular_values_v, bad)
            \<and> var_dual_quat_B_H_vec (vars s) = Some vec \<longrightarrow>
            (\<exists>s'. process_pair lib ext alg hc oc it pair s = Inr s'
               \<and> vars s' = vars s
               \<and> success (result_entry s') = success (result_entry s) @ [success_v]
               \<and> num_initial_poses (result_entry s')
                   = num_initial_poses (result_entry s) @ [int (length vec)]
               \<and> num_poses_kept (result_entry s')
                   = num_poses_kept (result_entry s) @ [num_poses_kept_v]
               \<and> runtimes (result_entry s') = runtimes (result_entry s) @ [runtime]
               \<and> singular_values (result_entry s')
                   = singular_values (result_entry s) @ [singular_values_v]
               \<and> bad_singular_value (result_entry s')
                   = bad_singular_value (result_entry s) @ [bad]))
       \<and> (length (aligned_poses_B_H_csv_files a) = 3 \<and> is_absolute_pose_sensor a = None
            \<and> get_all_configs ext = (alg, fc, hc, oc) # rest \<and> 0 < iterations_of hc a \<longrightarrow>
            main lib ext a = Inl (NameError ''success''))"
proof (intro conjI impI)
  assume "var_solver_tuple (vars s) = None"
  then show "process_pair lib ext alg hc oc it pair s = Inl (NameError ''success'')"
    using assms by (simp add: process_pair_def initial_calibration_def fill_result_entry_def)
next
  assume "var_solver_tuple (vars s)
              = Some (success_v, dq_H_E, rmse_v, num_inliers_v, num_poses_kept_v, runtime,
                      singular_values_v, bad)
            \<and> var_dual_quat_B_H_vec (vars s) = Some vec"
  then show "\<exists>s'. process_pair lib ext alg hc oc it pair s = Inr s'
               \<and> vars s' = vars s
               \<and> success (result_entry s') = success (result_entry s) @ [success_v]
               \<and> num_initial_poses (result_entry s')
                   = num_initial_poses (result_entry s) @ [int (length vec)]
               \<and> num_poses_kept (result_entry s')
                   = num_poses_kept (result_entry s) @ [num_poses_kept_v]
               \<and> runtimes (result_entry s') = runtimes (result_entry s) @ [runtime]
               \<and> singular_values (result_entry s')
                   = singular_values (result_entry s) @ [singular_values_v]
               \<and> bad_singular_value (result_entry s')
                   = bad_singular_value (result_entry s) @ [bad]"
    using assms
    by (simp add: process_pair_def initial_calibration_def fill_result_entry_def
        store_initial_def store_optimized_def split: prod.splits option.splits)
next
  assume h: "length (aligned_poses_B_H_csv_files a) = 3 \<and> is_absolute_pose_sensor a = None
            \<and> get_all_configs ext = (alg, fc, hc, oc) # rest \<and> 0 < iterations_of hc a"
  then obtain f1 f2 f3 where f: "aligned_poses_B_H_csv_files a = [f1, f2, f3]"
    by (auto simp: length_Suc_conv numeral_3_eq_3)
  define hc' where
    "hc' = hc\<lparr>hc_visualize := visualize a, hc_plot_every_nth_pose := plot_every_nth_pose a\<rparr>"
  have it: "iterations_of hc' a = iterations_of hc a"
    by (simp add: iterations_of_def hc'_def)
  then have u: "[0..<nat (iterations_of hc' a)] = 0 # [Suc 0..<nat (iterations_of hc' a)]"
    using h by (simp add: upt_conv_Cons)
  have p: "process_pair lib ext alg hc' oc 0 pr
             (initial_state\<lparr>result_entry := new_ResultEntry, results_dq_H_E := [],
                results_poses_H_E := [], pose_pair_num := 0\<rparr>) = Inl (NameError ''success'')" for pr
    using assms
    by (simp add: process_pair_def initial_calibration_def fill_result_entry_def initial_state_def)
  have "run_iteration lib ext 3 (zip (combinations2 [f1, f2, f3]) (combinations2 [False, False, False]))
          alg hc' oc 0 initial_state = Inl (NameError ''success'')"
    by (simp add: run_iteration_def p)
  then have "run_config lib ext a 3 (zip (combinations2 [f1, f2, f3]) (combinations2 [False, False, False]))
          (alg, fc, hc, oc) initial_state = Inl (NameError ''success'')"
    unfolding run_config_def prod.case Let_def hc'_def [symmetric] u by simp
  then show "main lib ext a = Inl (NameError ''success'')"
    using h by (simp add: main_def f numeral_3_eq_3)
qed

theorem optimization_only_reads_stale_variables_witness:
  "optimization_only \<lparr>optimization_only = True, enable_optimization = False\<rparr>
   \<and> process_pair sample_lib sample_externals ''only'' sample_hand_eye_config
         \<lparr>optimization_only = True, enable_optimization = False\<rparr> 0
         ((''a.csv'', ''b.csv''), (False, False)) initial_state
       = Inl (NameError ''success'')
   \<and> (\<exists>s'. process_pair sample_lib sample_externals ''only'' sample_hand_eye_config
               \<lparr>optimization_only = True, enable_optimization = False\<rparr> 0
               ((''a.csv'', ''c.csv''), (False, False)) sample_state = Inr s'
          \<and> vars s' = vars sample_state
          \<and> success (result_entry s') = [True, True]
          \<and> num_initial_poses (result_entry s') = [2, 2]
          \<and> results_dq_H_E s' = [Some (shift_x 1), Some (shift_x 1)])
   \<and> main sample_lib (sample_externals\<lparr>get_all_configs := [sample_config ''only'' True False]\<rparr>)
        sample_args = Inl (NameError ''success'')"
proof -
  let ?oc = "\<lparr>optimization_only = True, enable_optimization = False\<rparr>"
  let ?ext = "sample_externals\<lparr>get_all_configs := [sample_config ''only'' True False]\<rparr>"
  have h: "optimization_only ?oc" by simp
  have a: "process_pair sample_lib sample_externals ''only'' sample_hand_eye_config ?oc 0
         ((''a.csv'', ''b.csv''), (False, False)) initial_state = Inl (NameError ''success'')"
    using optimization_only_reads_stale_variables [OF h, where s = initial_state]
    by (simp add: initial_state_def)
  have "\<exists>s'. process_pair sample_lib sample_externals ''only'' sample_hand_eye_config ?oc 0
               ((''a.csv'', ''c.csv''), (False, False)) sample_state = Inr s'
          \<and> vars s' = vars sample_state
          \<and> success (result_entry s') = success (result_entry sample_state) @ [True]
          \<and> num_initial_poses (result_entry s')
              = num_initial_poses (result_entry sample_state) @ [int (length [dq_identity, shift_x 1])]
          \<and> num_poses_kept (result_entry s') = num_poses_kept (result_entry sample_state) @ [2]
          \<and> runtimes (result_entry s') = runtimes (result_entry sample_state) @ [0]
          \<and> singular_values (result_entry s') = singular_values (result_entry sample_state) @ [[0, 0]]
          \<and> bad_singular_value (result_entry s') = bad_singular_value (result_entry sample_state) @ [False]"
    using optimization_only_reads_stale_variables [OF h, where s = sample_state
        and success_v = True and dq_H_E = "Some (shift_x 1)" and rmse_v = "(0, 0)"
        and num_inliers_v = 2 and num_poses_kept_v = 2 and runtime = 0
        and singular_values_v = "[0, 0]" and bad = False and vec = "[dq_identity, shift_x 1]"
        and lib = sample_lib and ext = sample_externals and alg = "''only''"
        and hc = sample_hand_eye_config and it = 0
        and pair = "((''a.csv'', ''c.csv''), (False, False))"]
    by (simp add: sample_state_def)
  then obtain s' where s': "process_pair sample_lib sample_externals ''only'' sample_hand_eye_config ?oc 0
               ((''a.csv'', ''c.csv''), (False, False)) sample_state = Inr s'"
     and v: "vars s' = vars sample_state"
     and su: "success (result_entry s') = [True, True]"
     and ni: "num_initial_poses (result_entry s') = [2, 2]"
    by (auto simp: sample_state_def sample_entry_def)
  have r: "results_dq_H_E s' = [Some (shift_x 1), Some (shift_x 1)]"
    using s' by (auto simp: process_pair_def initial_calibration_def fill_result_entry_def
        store_initial_def sample_state_def)
  have m: "main sample_lib ?ext sample_args = Inl (NameError ''success'')"
    using optimization_only_reads_stale_variables [OF h, where a = sample_args and ext = ?ext
        and alg = "''only''" and hc = sample_hand_eye_config and fc = "''default''"
        and rest = "[]" and lib = sample_lib]
    by (simp add: sample_args_def sample_config_def iterations_of_def sample_hand_eye_config_def)
  show ?thesis using h a s' v su ni r m by blast
qed

end
